theory Spec2Isabelle
  imports Main "HOL-Library.Word"
begin

section \<open>JavaScript strings and numbers\<close>

text \<open>
  Strings are lists of characters, a character standing for a code unit below 256;
  \<open>charCodeAt\<close> reads the code unit. Integer-valued numbers are modelled as \<open>int\<close>; the
  32-bit conversions that the bitwise operators of JavaScript perform are written out with
  32-bit words.
\<close>

definition charCodeAt :: "char \<Rightarrow> int" where
  "charCodeAt c = of_char c"

text \<open>\<open>x << k\<close>: the left operand converted to 32 bits (its value modulo \<open>2^32\<close>),
  shifted, and read as a signed 32-bit integer.\<close>

definition shiftLeft :: "int \<Rightarrow> nat \<Rightarrow> int" where
  "shiftLeft x k = sint (push_bit k (word_of_int x :: 32 word))"

text \<open>\<open>x & y\<close> on 32-bit conversions of both operands.\<close>

definition bitAnd :: "int \<Rightarrow> int \<Rightarrow> int" where
  "bitAnd x y = sint (and (word_of_int x :: 32 word) (word_of_int y))"

definition digitChar :: "nat \<Rightarrow> char" where
  "digitChar d = ''0123456789abcdefghijklmnopqrstuvwxyz'' ! d"

text \<open>
  \<open>Number.prototype.toString(radix)\<close> on a non-negative integer. The radix is between 2
  and 36 (JavaScript throws a \<open>RangeError\<close> otherwise); it is 10 or 36 wherever the
  functions below call it.
\<close>

function toStringRadix :: "nat \<Rightarrow> nat \<Rightarrow> string" where
  "toStringRadix r n =
     (if r < 2 \<or> n < r then [digitChar n]
      else toStringRadix r (n div r) @ [digitChar (n mod r)])"
  by pat_completeness auto
termination
  by (relation "measure (\<lambda>(r, n). n)") auto

declare toStringRadix.simps [simp del]

text \<open>\<open>n.toString()\<close> of an integer-valued number: decimal digits, with a sign.\<close>

definition numberToString :: "int \<Rightarrow> string" where
  "numberToString n =
     (if n < 0 then CHR ''-'' # toStringRadix 10 (nat (- n)) else toStringRadix 10 (nat n))"

text \<open>The result of \<open>parseInt\<close>: \<open>NaN\<close> or an integer-valued number.\<close>

datatype number = NaN | Num int

text \<open>\<open>!n\<close> is false for a number exactly when it is neither \<open>NaN\<close> nor zero.\<close>

fun truthy :: "number \<Rightarrow> bool" where
  "truthy NaN = False"
| "truthy (Num n) = (n \<noteq> 0)"

text \<open>\<open>str.startsWith(p)\<close> and \<open>str.includes(sub)\<close>.\<close>

definition startsWith :: "string \<Rightarrow> string \<Rightarrow> bool" where
  "startsWith str p = (take (length p) str = p)"

fun includesStr :: "string \<Rightarrow> string \<Rightarrow> bool" where
  "includesStr [] sub = (sub = [])"
| "includesStr (c # cs) sub = (startsWith (c # cs) sub \<or> includesStr cs sub)"

text \<open>
  \<open>str.split(sep)\<close> for a string separator: the pieces between the occurrences of
  \<open>sep\<close>, found from left to right without overlap; an empty separator splits into
  single characters.
\<close>

function splitAt :: "string \<Rightarrow> string \<Rightarrow> string \<Rightarrow> string list" where
  "splitAt sep cur [] = [rev cur]"
| "splitAt sep cur (c # cs) =
     (if sep \<noteq> [] \<and> startsWith (c # cs) sep
      then rev cur # splitAt sep [] (drop (length sep) (c # cs))
      else splitAt sep (c # cur) cs)"
  by pat_completeness auto
termination
  by (relation "measure (\<lambda>(sep, cur, str). length str)") auto

definition splitStr :: "string \<Rightarrow> string \<Rightarrow> string list" where
  "splitStr str sep = (if sep = [] then map (\<lambda>c. [c]) str else splitAt sep [] str)"

text \<open>
  \<open>parseInt(str, radix)\<close>, with radix \<open>0\<close> for an omitted radix: leading white space
  is dropped, a sign is read, a \<open>0x\<close> prefix selects radix 16 when the radix is omitted or
  16, and the longest prefix of digits of the radix is the value; without a digit the result
  is \<open>NaN\<close>. The value is the exact integer (a double rounds integers beyond \<open>2^53\<close>).
\<close>

definition isWhiteSpace :: "char \<Rightarrow> bool" where
  "isWhiteSpace c \<longleftrightarrow> (of_char c :: nat) \<in> {9, 10, 11, 12, 13, 32, 160}"

definition digitValue :: "char \<Rightarrow> nat option" where
  "digitValue c =
     (let n = (of_char c :: nat)
      in if 48 \<le> n \<and> n \<le> 57 then Some (n - 48)
         else if 97 \<le> n \<and> n \<le> 122 then Some (n - 87)
         else if 65 \<le> n \<and> n \<le> 90 then Some (n - 55)
         else None)"

definition isRadixDigit :: "nat \<Rightarrow> char \<Rightarrow> bool" where
  "isRadixDigit R c = (case digitValue c of None \<Rightarrow> False | Some d \<Rightarrow> d < R)"

definition digitsValue :: "nat \<Rightarrow> string \<Rightarrow> int" where
  "digitsValue R Z =
     foldl (\<lambda>acc c. acc * int R + (case digitValue c of None \<Rightarrow> 0 | Some d \<Rightarrow> int d)) 0 Z"

definition parseInt :: "string \<Rightarrow> nat \<Rightarrow> number" where
  "parseInt str radix =
     (let S = dropWhile isWhiteSpace str;
          sign = (if take 1 S = ''-'' then - 1 else 1 :: int);
          S1 = (if take 1 S = ''+'' \<or> take 1 S = ''-'' then drop 1 S else S)
      in if radix \<noteq> 0 \<and> (radix < 2 \<or> 36 < radix) then NaN
         else
           let stripPrefix = (radix = 0 \<or> radix = 16);
               hex = (stripPrefix \<and> (take 2 S1 = ''0x'' \<or> take 2 S1 = ''0X''));
               R = (if hex then 16 else if radix = 0 then 10 else radix);
               S2 = (if hex then drop 2 S1 else S1);
               Z = takeWhile (isRadixDigit R) S2
           in if Z = [] then NaN else Num (sign * digitsValue R Z))"

section \<open>utils/urlEncryption.ts\<close>

definition ENCRYPTION_KEY :: string where
  "ENCRYPTION_KEY = ''chatconnect_2024_secure_v2''"

text \<open>One round of the loop body of \<open>simpleHash\<close>:
  \<open>hash = ((hash << 5) - hash) + char; hash = hash & hash\<close>.\<close>

definition hashStep :: "int \<Rightarrow> char \<Rightarrow> int" where
  "hashStep hash c =
     (let h1 = (shiftLeft hash 5 - hash) + charCodeAt c
      in bitAnd h1 h1)"

definition simpleHash :: "string \<Rightarrow> string" where
  "simpleHash str = toStringRadix 36 (nat \<bar>foldl hashStep 0 str\<bar>)"

text \<open>
  The padding loop of \<open>generateStableId\<close>:
  \<open>while (encrypted.length < 16) encrypted = simpleHash(encrypted + seed)\<close>.
  The loop has no bound in the source, so a run that never leaves it is the value \<open>None\<close>.
\<close>

partial_function (option) padLoop :: "string \<Rightarrow> string \<Rightarrow> string option" where
  "padLoop seed encrypted =
     (if length encrypted < 16 then padLoop seed (simpleHash (encrypted @ seed))
      else Some encrypted)"

text \<open>The character class \<open>[a-zA-Z0-9]\<close>.\<close>

definition isAlnum :: "char \<Rightarrow> bool" where
  "isAlnum c \<longleftrightarrow>
     c \<in> set ''abcdefghijklmnopqrstuvwxyzABCDEFGHIJKLMNOPQRSTUVWXYZ0123456789''"

definition generateStableId :: "string \<Rightarrow> string option" where
  "generateStableId chatId =
     (let seed = chatId @ ''_'' @ ENCRYPTION_KEY;
          hash = simpleHash seed
      in map_option (\<lambda>encrypted. map (\<lambda>c. if isAlnum c then c else CHR ''a'') (take 16 encrypted))
           (padLoop seed hash))"

text \<open>The argument of \<open>encryptChatId\<close> is \<open>number | string\<close>.\<close>

datatype chat_id = IdNumber int | IdString string

fun chatIdToString :: "chat_id \<Rightarrow> string" where
  "chatIdToString (IdNumber n) = numberToString n"
| "chatIdToString (IdString s) = s"

definition encryptChatId :: "chat_id \<Rightarrow> string option" where
  "encryptChatId chatId = generateStableId (chatIdToString chatId)"

text \<open>
  \<open>decryptChatId\<close>. The outer \<open>option\<close> is \<open>None\<close> when the call does not return; the
  inner one is the \<open>number | null\<close> of the source. First the attempt to read the
  argument as a base-36 number, then the search over \<open>1..10000\<close>.
\<close>

definition tryDecode :: "string \<Rightarrow> int option option" where
  "tryDecode encryptedId =
     (case parseInt encryptedId 36 of
        NaN \<Rightarrow> Some None
      | Num decoded \<Rightarrow>
          if decoded > 0 \<and> decoded < 1000000
          then (case encryptChatId (IdNumber decoded) of
                  None \<Rightarrow> None
                | Some testEncrypted \<Rightarrow>
                    Some (if testEncrypted = encryptedId then Some decoded else None))
          else Some None)"

function bruteForce :: "string \<Rightarrow> int \<Rightarrow> int option option" where
  "bruteForce encryptedId i =
     (if i \<le> 10000
      then (case encryptChatId (IdNumber i) of
              None \<Rightarrow> None
            | Some testEncrypted \<Rightarrow>
                if testEncrypted = encryptedId then Some (Some i)
                else bruteForce encryptedId (i + 1))
      else Some None)"
  by pat_completeness auto
termination
  by (relation "measure (\<lambda>(e, i). nat (10001 - i))") auto

declare bruteForce.simps [simp del]

definition decryptChatId :: "string \<Rightarrow> int option option" where
  "decryptChatId encryptedId =
     (case tryDecode encryptedId of
        None \<Rightarrow> None
      | Some (Some decoded) \<Rightarrow> Some (Some decoded)
      | Some None \<Rightarrow> bruteForce encryptedId 1)"

section \<open>utils/cookies.ts\<close>

text \<open>
  A cookie as the browser stores it: besides name and value, the path and the domain
  attribute it was set with (\<open>None\<close> for a cookie set without a domain, which belongs to
  the host of the page alone). The browser keeps at most one cookie for each name, path
  and domain.
\<close>

record cookie =
  cookie_name :: string
  cookie_value :: string
  cookie_path :: string
  cookie_domain :: "string option"

text \<open>
  The cookie that \<open>setCookie(name, value)\<close> stores: it is written with \<open>path=/\<close> and
  without a domain.
\<close>

definition storedCookie :: "string \<Rightarrow> string \<Rightarrow> cookie" where
  "storedCookie name val =
     \<lparr>cookie_name = name, cookie_value = val, cookie_path = ''/'', cookie_domain = None\<rparr>"

text \<open>
  The browser as the cookie functions see it: the cookies that \<open>document.cookie\<close> shows,
  in its order (\<open>None\<close> when there is no \<open>document\<close>, as on the server), and the clock
  read by \<open>Date.now()\<close>, in milliseconds.
\<close>

record browser =
  document :: "cookie list option"
  now :: int

fun joinWith :: "string \<Rightarrow> string list \<Rightarrow> string" where
  "joinWith sep [] = []"
| "joinWith sep [x] = x"
| "joinWith sep (x # y # ys) = x @ sep @ joinWith sep (y # ys)"

text \<open>Reading \<open>document.cookie\<close>: the pairs \<open>name=value\<close>, joined by \<open>; \<close>.\<close>

definition cookieString :: "cookie list \<Rightarrow> string" where
  "cookieString jar = joinWith ''; '' (map (\<lambda>c. cookie_name c @ ''='' @ cookie_value c) jar)"

definition getCookie :: "string \<Rightarrow> browser \<Rightarrow> string option" where
  "getCookie name b =
     (case document b of
        None \<Rightarrow> None
      | Some jar \<Rightarrow>
          let val = ''; '' @ cookieString jar;
              parts = splitStr val (''; '' @ name @ ''='')
          in if length parts = 2
             then (case splitStr (last parts) '';'' of
                     [] \<Rightarrow> None
                   | s # rest \<Rightarrow> if s = [] then None else Some s)
             else None)"

text \<open>
  \<open>deleteCookie\<close> assigns \<open>name=;expires=Thu, 01 Jan 1970 00:00:00 UTC;path=/;\<close> to
  \<open>document.cookie\<close>. The browser takes this as a cookie of that name with path \<open>/\<close> and
  no domain that has expired, and drops the cookie it holds under the same name, path and
  domain. A cookie of that name with another path or with a domain attribute stays.
\<close>

definition deleteCookie :: "string \<Rightarrow> browser \<Rightarrow> browser" where
  "deleteCookie name b =
     (case document b of
        None \<Rightarrow> b
      | Some jar \<Rightarrow>
          b\<lparr>document :=
              Some (filter (\<lambda>c. \<not> (cookie_name c = name \<and> cookie_path c = ''/''
                                      \<and> cookie_domain c = None)) jar)\<rparr>)"

definition SESSION_DURATION_DAYS :: int where
  "SESSION_DURATION_DAYS = 2"

definition getLastActivity :: "browser \<Rightarrow> number" where
  "getLastActivity b =
     (case getCookie ''lastActivity'' b of
        None \<Rightarrow> Num 0
      | Some timestamp \<Rightarrow> parseInt timestamp 0)"

definition isSessionValid :: "browser \<Rightarrow> bool" where
  "isSessionValid b =
     (let token = getCookie ''token'' b;
          lastActivity = getLastActivity b
      in if token = None \<or> token = Some [] \<or> \<not> truthy lastActivity then False
         else
           (case lastActivity of
              NaN \<Rightarrow> False
            | Num la \<Rightarrow>
                let timeSinceActivity = now b - la;
                    maxInactivity = SESSION_DURATION_DAYS * 24 * 60 * 60 * 1000
                in timeSinceActivity < maxInactivity))"

definition clearSession :: "browser \<Rightarrow> browser" where
  "clearSession b = deleteCookie ''lastActivity'' (deleteCookie ''token'' b)"

text \<open>\<open>getAuthToken\<close> returns the token or \<open>null\<close>, and the browser as it leaves it.\<close>

definition getAuthToken :: "browser \<Rightarrow> string option \<times> browser" where
  "getAuthToken b =
     (if \<not> isSessionValid b then (None, clearSession b)
      else (getCookie ''token'' b, b))"

section \<open>The settings page (\<open>SettingsPage\<close>)\<close>

text \<open>The \<open>value\<close> and \<open>label\<close> of each entry of \<open>MCP_SERVER_TYPES\<close>.\<close>

definition MCP_SERVER_TYPES :: "(string \<times> string) list" where
  "MCP_SERVER_TYPES =
     [(''pipedream'', ''Pipedream Workflow''),
      (''stdio'', ''Standard I/O''),
      (''sse'', ''Server-Sent Events''),
      (''websocket'', ''WebSocket''),
      (''custom'', ''Custom URI'')]"

text \<open>A server as the list endpoint returns it; \<open>config\<close> is a free-form object, so its
  fields may be missing.\<close>

record mcp_server =
  server_id :: int
  server_name :: string
  server_description :: "string option"
  server_config_type :: "string option"
  server_config_uri :: "string option"

record oauth_status =
  status_server_id :: int
  is_valid :: bool

text \<open>The state of the page that the MCP server handlers read and write.\<close>

record page =
  mcpServers :: "mcp_server list"
  mcpServerName :: string
  mcpServerType :: string
  mcpServerDescription :: string
  mcpServerUrl :: string
  mcpServerLoading :: bool
  mcpServersLoading :: bool
  error :: string
  oauthStatus :: "oauth_status list"

text \<open>The body of the create request, \<open>POST /auth/mcp-servers\<close>, with its bearer token.\<close>

record create_request =
  bearer :: string
  req_name :: string
  req_description :: string
  config_type :: string
  config_uri :: string
  config_transport :: string

text \<open>
  What the backend answers. The create request throws (with a message), answers with a
  status that is not ok (with the \<open>detail\<close> of its body, if any), or succeeds with a
  body that parses. The list request throws, is not ok, or yields data, which is an array
  or not.
\<close>

datatype post_outcome = PostThrew string | PostNotOk "string option" | PostOk

datatype list_outcome = ListThrew | ListNotOk | ListOk "mcp_server list option"

text \<open>\<open>a || b\<close> on strings: the empty string and a missing value are falsy.\<close>

fun orElse :: "string option \<Rightarrow> string \<Rightarrow> string" where
  "orElse None d = d"
| "orElse (Some s) d = (if s = [] then d else s)"

definition fetchMcpServers :: "list_outcome \<Rightarrow> browser \<times> page \<Rightarrow> browser \<times> page" where
  "fetchMcpServers listed bp =
     (let (b, p) = bp;
          (token, b1) = getAuthToken b
      in if token = None \<or> token = Some [] then (b1, p)
         else
           let p1 = p\<lparr>mcpServersLoading := True\<rparr>
           in (case listed of
                 ListOk data \<Rightarrow>
                   (b1, p1\<lparr>mcpServers := (case data of Some servers \<Rightarrow> servers | None \<Rightarrow> []),
                           mcpServersLoading := False\<rparr>)
               | _ \<Rightarrow>
                   (b1, p1\<lparr>mcpServers := [], error := ''Could not load MCP servers.'',
                           mcpServersLoading := False\<rparr>)))"

text \<open>The body of the create request that \<open>handleAddMcpServer\<close> sends.\<close>

definition createRequest :: "string \<Rightarrow> page \<Rightarrow> create_request" where
  "createRequest tok p =
     \<lparr>bearer = tok,
      req_name = mcpServerName p,
      req_description = mcpServerDescription p,
      config_type = (if mcpServerType p = ''pipedream'' then ''custom'' else mcpServerType p),
      config_uri = mcpServerUrl p,
      config_transport = (if mcpServerType p = ''pipedream'' then ''http'' else mcpServerType p)\<rparr>"

text \<open>
  \<open>handleAddMcpServer\<close>: the handler of the add form. The result is the browser and page
  it leaves and the create requests it has issued. Without a token it returns at once.
\<close>

definition handleAddMcpServer ::
  "(create_request \<Rightarrow> post_outcome) \<Rightarrow> list_outcome \<Rightarrow> browser \<times> page
     \<Rightarrow> (browser \<times> page) \<times> create_request list" where
  "handleAddMcpServer post listed bp =
     (let (b, p) = bp;
          p1 = p\<lparr>mcpServerLoading := True, error := []\<rparr>;
          (token, b1) = getAuthToken b
      in case token of
           None \<Rightarrow> ((b1, p1), [])
         | Some tok \<Rightarrow>
             if tok = [] then ((b1, p1), [])
             else if mcpServerType p = ''pipedream''
                     \<and> \<not> startsWith (mcpServerUrl p) ''https://mcp.pipedream.net/''
             then ((b1, p1\<lparr>error :=
                          ''Invalid Pipedream URL. Must start with https://mcp.pipedream.net/'',
                        mcpServerLoading := False\<rparr>), [])
             else
               let req = createRequest tok p
               in (case post req of
                     PostThrew msg \<Rightarrow>
                       ((b1, p1\<lparr>error := orElse (Some msg) ''Could not add MCP server.'',
                                mcpServerLoading := False\<rparr>), [req])
                   | PostNotOk detail \<Rightarrow>
                       ((b1, p1\<lparr>error := orElse (Some (orElse detail ''Failed to add MCP server''))
                                           ''Could not add MCP server.'',
                                mcpServerLoading := False\<rparr>), [req])
                   | PostOk \<Rightarrow>
                       let (b2, p2) = fetchMcpServers listed (b1, p1)
                       in ((b2, p2\<lparr>mcpServerName := [], mcpServerType := [],
                                   mcpServerDescription := [], mcpServerUrl := [],
                                   mcpServerLoading := False\<rparr>), [req])))"

text \<open>
  The types that the select element of the form offers: the values of
  \<open>MCP_SERVER_TYPES\<close>. Its placeholder option has the empty value, which the \<open>required\<close>
  attribute of the element does not let through.
\<close>

definition selectableType :: "string \<Rightarrow> bool" where
  "selectableType t \<longleftrightarrow> t \<in> set (map fst MCP_SERVER_TYPES)"

text \<open>
  The provider shown for a server in the list:
  \<open>isPipedream = uri?.includes("pipedream.net")\<close>, then \<open>gmail\<close> before \<open>google\<close>.
  A missing \<open>uri\<close> makes every test \<open>undefined\<close>, which is falsy.
\<close>

fun optIncludes :: "string option \<Rightarrow> string \<Rightarrow> bool" where
  "optIncludes None sub = False"
| "optIncludes (Some u) sub = includesStr u sub"

definition detectProvider :: "mcp_server \<Rightarrow> string option" where
  "detectProvider server =
     (let isPipedream = optIncludes (server_config_uri server) ''pipedream.net''
      in if isPipedream \<and> optIncludes (server_config_uri server) ''gmail'' then Some ''gmail''
         else if isPipedream \<and> optIncludes (server_config_uri server) ''google''
         then Some ''google''
         else None)"

text \<open>The OAuth controls rendered for a server: none, the authenticate button or the
  revoke button, each with the provider it passes to its handler.\<close>

datatype oauth_control = NoControls | AuthenticateButton string | RevokeButton string

definition oauthControls :: "oauth_status list \<Rightarrow> mcp_server \<Rightarrow> oauth_control" where
  "oauthControls statuses server =
     (let serverOAuthStatus = find (\<lambda>st. status_server_id st = server_id server) statuses;
          provider = detectProvider server
      in case provider of
           None \<Rightarrow> NoControls
         | Some pr \<Rightarrow>
             if pr = [] then NoControls
             else (case serverOAuthStatus of
                     None \<Rightarrow> AuthenticateButton pr
                   | Some st \<Rightarrow>
                       if \<not> is_valid st then AuthenticateButton pr else RevokeButton pr))"

section \<open>The MCP host integration layer\<close>

text \<open>
  The confirmation broker, the OAuth token manager, the transport connector and the
  fallback executor run in the backend service, whose sources are not in the tree. Each is
  modelled from its contract in the specification. Times are seconds.
\<close>

datatype ErrorKind =
    ConnectionRefused | Timeout | InvalidResponse | ToolNotFound | SchemaValidationFailed
  | ReauthRequired | InvalidState | StateExpired
  | ConfirmationNotFound | ConfirmationExpired | ConfirmationAlreadyResolved
  | FallbackFailed ErrorKind ErrorKind

subsection \<open>ConfirmationBroker\<close>

datatype confirmation_status = Pending | Confirmed | Cancelled | Expired

datatype confirmation_action = Confirm | Cancel

record ConfirmationRecord =
  confirmationId :: string
  userId :: string
  intentKind :: string
  originalMessage :: string
  candidateServers :: "string list"
  createdAt :: int
  expiresAt :: int
  status :: confirmation_status

type_synonym confirmation_table = "string \<rightharpoonup> ConfirmationRecord"

definition CONFIRMATION_TTL :: int where
  "CONFIRMATION_TTL = 5 * 60"

text \<open>
  Modelled from the spec: \<open>ConfirmationBroker.Create\<close>, which is missing from the tree.
  The record starts \<open>pending\<close>, with \<open>createdAt = now\<close> and \<open>expiresAt = now + 5m\<close>; the
  random confirmation id is an argument.
\<close>

definition Create ::
  "string \<Rightarrow> int \<Rightarrow> string \<Rightarrow> string \<Rightarrow> string \<Rightarrow> string list \<Rightarrow> confirmation_table
     \<Rightarrow> ConfirmationRecord \<times> confirmation_table" where
  "Create freshId t user intent message servers table =
     (let r = \<lparr>confirmationId = freshId, userId = user, intentKind = intent,
                originalMessage = message, candidateServers = servers,
                createdAt = t, expiresAt = t + CONFIRMATION_TTL, status = Pending\<rparr>
      in (r, table(freshId \<mapsto> r)))"

text \<open>
  Modelled from the spec: \<open>ConfirmationBroker.Resolve\<close>, which is missing from the tree.
  It fails with \<open>NotFound\<close> if the id is unknown, with \<open>AlreadyResolved\<close> if the status
  is not \<open>pending\<close>, and with \<open>Expired\<close> if \<open>now > expiresAt\<close>, marking the record
  expired; otherwise it moves the status and returns the record. A record leaves
  \<open>pending\<close> once, so only a pending record is marked expired, and the second of two
  calls finds the record resolved whenever it is made.
\<close>

definition Resolve ::
  "int \<Rightarrow> string \<Rightarrow> confirmation_action \<Rightarrow> confirmation_table
     \<Rightarrow> (ErrorKind + ConfirmationRecord) \<times> confirmation_table" where
  "Resolve t c action table =
     (case table c of
        None \<Rightarrow> (Inl ConfirmationNotFound, table)
      | Some r \<Rightarrow>
          if status r \<noteq> Pending then (Inl ConfirmationAlreadyResolved, table)
          else if t > expiresAt r
          then (Inl ConfirmationExpired, table(c \<mapsto> r\<lparr>status := Expired\<rparr>))
          else
            let r' = r\<lparr>status := (case action of Confirm \<Rightarrow> Confirmed | Cancel \<Rightarrow> Cancelled)\<rparr>
            in (Inr r', table(c \<mapsto> r')))"

subsection \<open>OAuthTokenManager\<close>

record OAuthState =
  os_state :: string
  os_userId :: string
  os_serverId :: string
  os_provider :: string
  os_createdAt :: int
  os_expiresAt :: int

record OAuthToken =
  tok_userId :: string
  tok_serverId :: string
  tok_provider :: string
  accessToken :: string
  refreshToken :: "string option"
  tok_expiresAt :: "int option"
  scope :: string

text \<open>What a provider's token endpoint answers: the tokens, a lifetime in seconds, a scope.\<close>

record token_response =
  resp_accessToken :: string
  resp_refreshToken :: "string option"
  resp_expiresIn :: "nat option"
  resp_scope :: string

record oauth_store =
  states :: "string \<rightharpoonup> OAuthState"
  tokens :: "string \<times> string \<times> string \<rightharpoonup> OAuthToken"

definition STATE_LIFETIME :: int where
  "STATE_LIFETIME = 10 * 60"

definition issueToken :: "int \<Rightarrow> string \<Rightarrow> string \<Rightarrow> string \<Rightarrow> token_response \<Rightarrow> OAuthToken" where
  "issueToken t user server provider resp =
     \<lparr>tok_userId = user, tok_serverId = server, tok_provider = provider,
      accessToken = resp_accessToken resp, refreshToken = resp_refreshToken resp,
      tok_expiresAt = map_option (\<lambda>n. t + int n) (resp_expiresIn resp),
      scope = resp_scope resp\<rparr>"

text \<open>
  Modelled from the spec: \<open>OAuthTokenManager.BeginAuthorization\<close>, which is missing from
  the tree. It creates an \<open>OAuthState\<close> that lives 10 minutes and returns the authorization
  URL and the state; the random state token and the provider's URL builder are arguments.
\<close>

definition BeginAuthorization ::
  "(string \<Rightarrow> string \<Rightarrow> string) \<Rightarrow> string \<Rightarrow> int \<Rightarrow> string \<Rightarrow> string \<Rightarrow> string \<Rightarrow> oauth_store
     \<Rightarrow> (string \<times> string) \<times> oauth_store" where
  "BeginAuthorization authorizeUrl freshState t user server provider store =
     (let r = \<lparr>os_state = freshState, os_userId = user, os_serverId = server,
                os_provider = provider, os_createdAt = t, os_expiresAt = t + STATE_LIFETIME\<rparr>
      in ((authorizeUrl provider freshState, freshState),
          store\<lparr>states := (states store)(freshState \<mapsto> r)\<rparr>))"

text \<open>
  Modelled from the spec: \<open>OAuthTokenManager.CompleteAuthorization\<close>, which is missing
  from the tree. It looks the state up by value and fails with \<open>InvalidState\<close> if it is
  absent or expired (the check is \<open>now < expiresAt\<close>); otherwise it deletes the state
  record, exchanges the code with the provider's token endpoint and upserts the token.
  The token endpoint is an argument; its failure is returned as it is.
\<close>

definition CompleteAuthorization ::
  "(string \<Rightarrow> string \<Rightarrow> ErrorKind + token_response) \<Rightarrow> int \<Rightarrow> string \<Rightarrow> string \<Rightarrow> oauth_store
     \<Rightarrow> (ErrorKind + OAuthToken) \<times> oauth_store" where
  "CompleteAuthorization exchange t code s store =
     (case states store s of
        None \<Rightarrow> (Inl InvalidState, store)
      | Some r \<Rightarrow>
          if \<not> t < os_expiresAt r then (Inl InvalidState, store)
          else
            let store1 = store\<lparr>states := (states store)(s := None)\<rparr>
            in (case exchange (os_provider r) code of
                  Inl e \<Rightarrow> (Inl e, store1)
                | Inr resp \<Rightarrow>
                    let tok = issueToken t (os_userId r) (os_serverId r) (os_provider r) resp
                    in (Inr tok,
                        store1\<lparr>tokens := (tokens store1)
                                  ((os_userId r, os_serverId r, os_provider r) \<mapsto> tok)\<rparr>)))"

text \<open>A token's \<open>expiresAt\<close> is in the future; a token without \<open>expiresAt\<close> does not expire.\<close>

definition inFuture :: "int \<Rightarrow> OAuthToken \<Rightarrow> bool" where
  "inFuture t tok = (case tok_expiresAt tok of None \<Rightarrow> True | Some e \<Rightarrow> t < e)"

text \<open>
  Modelled from the spec: \<open>OAuthTokenManager.GetValidToken\<close>, which is missing from the
  tree. A stored token whose \<open>expiresAt\<close> is in the future is returned; an expired one with
  a refresh token is refreshed with the provider and the new token upserted; if the refresh
  fails or there is no refresh token, the stored token is deleted and the call fails with
  \<open>ReauthRequired\<close>, as it does when nothing is stored. The provider's refresh call is an
  argument.
\<close>

definition GetValidToken ::
  "(string \<Rightarrow> string \<Rightarrow> ErrorKind + token_response) \<Rightarrow> int \<Rightarrow> string \<Rightarrow> string \<Rightarrow> string
     \<Rightarrow> oauth_store \<Rightarrow> (ErrorKind + OAuthToken) \<times> oauth_store" where
  "GetValidToken refresh t user server provider store =
     (let key = (user, server, provider)
      in case tokens store key of
           None \<Rightarrow> (Inl ReauthRequired, store)
         | Some tok \<Rightarrow>
             if inFuture t tok then (Inr tok, store)
             else
               let deleted = store\<lparr>tokens := (tokens store)(key := None)\<rparr>
               in (case refreshToken tok of
                     None \<Rightarrow> (Inl ReauthRequired, deleted)
                   | Some rt \<Rightarrow>
                       (case refresh provider rt of
                          Inl e \<Rightarrow> (Inl ReauthRequired, deleted)
                        | Inr resp \<Rightarrow>
                            let tok' = issueToken t user server provider resp
                            in (Inr tok', store\<lparr>tokens := (tokens store)(key \<mapsto> tok')\<rparr>))))"

text \<open>
  Modelled from the spec: \<open>OAuthTokenManager.Revoke\<close>, which is missing from the tree. It
  deletes the stored token unconditionally.
\<close>

definition Revoke :: "string \<Rightarrow> string \<Rightarrow> string \<Rightarrow> oauth_store \<Rightarrow> oauth_store" where
  "Revoke user server provider store =
     store\<lparr>tokens := (tokens store)((user, server, provider) := None)\<rparr>"

text \<open>The operations of the token manager other than the completion of one state, as a
  caller may interleave them.\<close>

datatype oauth_op =
    OpBegin string int string string string
  | OpComplete int string string
  | OpGetValidToken int string string string
  | OpRevoke string string string

record providers =
  authorizeUrl :: "string \<Rightarrow> string \<Rightarrow> string"
  exchangeCode :: "string \<Rightarrow> string \<Rightarrow> ErrorKind + token_response"
  refreshCall :: "string \<Rightarrow> string \<Rightarrow> ErrorKind + token_response"

fun applyOp :: "providers \<Rightarrow> oauth_op \<Rightarrow> oauth_store \<Rightarrow> oauth_store" where
  "applyOp pv (OpBegin fresh t u sv p) store =
     snd (BeginAuthorization (authorizeUrl pv) fresh t u sv p store)"
| "applyOp pv (OpComplete t code s) store =
     snd (CompleteAuthorization (exchangeCode pv) t code s store)"
| "applyOp pv (OpGetValidToken t u sv p) store =
     snd (GetValidToken (refreshCall pv) t u sv p store)"
| "applyOp pv (OpRevoke u sv p) store = Revoke u sv p store"

fun applyOps :: "providers \<Rightarrow> oauth_op list \<Rightarrow> oauth_store \<Rightarrow> oauth_store" where
  "applyOps pv [] store = store"
| "applyOps pv (op # ops) store = applyOps pv ops (applyOp pv op store)"

text \<open>An operation issues the state \<open>s\<close> when it is a \<open>BeginAuthorization\<close> whose random
  token is \<open>s\<close>.\<close>

fun issues :: "string \<Rightarrow> oauth_op \<Rightarrow> bool" where
  "issues s (OpBegin fresh t u sv p) = (fresh = s)"
| "issues s _ = False"

subsection \<open>TransportConnector and FallbackExecutor\<close>

text \<open>
  Modelled from the spec: \<open>TransportConnector.Call\<close>, which is missing from the tree. The
  outcome of the \<open>i\<close>-th attempt on the transport is an argument, as is the classification
  of errors as transport-level. A transport-level error is retried once before it is
  surfaced; a timeout and every other error are surfaced at once. The result comes with the
  number of attempts made.
\<close>

definition Call ::
  "(ErrorKind \<Rightarrow> bool) \<Rightarrow> (nat \<Rightarrow> ErrorKind + 'r) \<Rightarrow> (ErrorKind + 'r) \<times> nat" where
  "Call transportLevel attempt =
     (case attempt 0 of
        Inr result \<Rightarrow> (Inr result, 1)
      | Inl e \<Rightarrow>
          if e \<noteq> Timeout \<and> transportLevel e then (attempt 1, 2)
          else (Inl e, 1))"

record 'r request_outcome =
  result :: "ErrorKind + 'r"
  primaryAttempts :: nat
  fallbackInvoked :: bool

text \<open>
  Modelled from the spec: the handling of one tool-call request after the health gate,
  which is missing from the tree. The primary call comes first; the fallback executor is
  invoked when the primary call fails with a timeout or with a transport-level error
  after its retry; a fallback failure is surfaced as \<open>FallbackFailed\<close> with the original
  and the fallback error. The outcome of \<open>FallbackExecutor.Execute\<close> is an argument.
\<close>

definition executeToolCall ::
  "(ErrorKind \<Rightarrow> bool) \<Rightarrow> (nat \<Rightarrow> ErrorKind + 'r) \<Rightarrow> (ErrorKind + 'r) \<Rightarrow> 'r request_outcome" where
  "executeToolCall transportLevel attempt fallback =
     (let (primary, n) = Call transportLevel attempt
      in case primary of
           Inr r \<Rightarrow> \<lparr>result = Inr r, primaryAttempts = n, fallbackInvoked = False\<rparr>
         | Inl e \<Rightarrow>
             if e = Timeout \<or> transportLevel e
             then (case fallback of
                     Inr a \<Rightarrow> \<lparr>result = Inr a, primaryAttempts = n, fallbackInvoked = True\<rparr>
                   | Inl fe \<Rightarrow>
                       \<lparr>result = Inl (FallbackFailed e fe), primaryAttempts = n,
                        fallbackInvoked = True\<rparr>)
             else \<lparr>result = Inl e, primaryAttempts = n, fallbackInvoked = False\<rparr>)"

section \<open>Properties of the URL encryption\<close>

lemma bitAnd_bounds: "- (2 ^ 31) \<le> bitAnd x y \<and> bitAnd x y < 2 ^ 31"
  unfolding bitAnd_def
  using sint_ge [of "and (word_of_int x :: 32 word) (word_of_int y)"]
    sint_lt [of "and (word_of_int x :: 32 word) (word_of_int y)"] by simp

lemma hashLoop_bounds: "- (2 ^ 31) \<le> foldl hashStep 0 str \<and> foldl hashStep 0 str < 2 ^ 31"
proof (induction str rule: rev_induct)
  case Nil
  show ?case by simp
next
  case (snoc c cs)
  show ?case using bitAnd_bounds by (simp add: hashStep_def Let_def)
qed

lemma toStringRadix_length:
  "2 \<le> r \<Longrightarrow> n < r ^ Suc k \<Longrightarrow> length (toStringRadix r n) \<le> Suc k"
proof (induction k arbitrary: n)
  case 0
  then show ?case by (simp add: toStringRadix.simps [of r n])
next
  case (Suc k)
  show ?case
  proof (cases "n < r")
    case True
    then show ?thesis by (simp add: toStringRadix.simps [of r n])
  next
    case False
    from Suc.prems have "n div r < r ^ Suc k"
      by (simp add: less_mult_imp_div_less mult.commute)
    with Suc.IH Suc.prems(1) have "length (toStringRadix r (n div r)) \<le> Suc k" by blast
    with False Suc.prems(1) show ?thesis by (simp add: toStringRadix.simps [of r n])
  qed
qed

lemma simpleHash_length: "length (simpleHash str) \<le> 6"
proof -
  have "nat \<bar>foldl hashStep 0 str\<bar> < 36 ^ Suc 5"
    using hashLoop_bounds [of str] by (simp add: nat_less_iff abs_less_iff)
  then show ?thesis unfolding simpleHash_def
    using toStringRadix_length [of 36 _ 5] by fastforce
qed

lemma padLoop_returns_long:
  assumes "padLoop seed encrypted = Some y"
  shows "16 \<le> length encrypted"
proof (rule padLoop.raw_induct [where P = "\<lambda>s e r. 16 \<le> length e", OF _ assms])
  fix f :: "string \<Rightarrow> string \<Rightarrow> string option" and s e r
  assume IH: "\<And>s e r. f s e = Some r \<Longrightarrow> 16 \<le> length e"
    and step: "(if length e < 16 then f s (simpleHash (e @ s)) else Some e) = Some r"
  show "16 \<le> length e"
  proof (rule ccontr)
    assume "\<not> 16 \<le> length e"
    with step have "f s (simpleHash (e @ s)) = Some r" by simp
    then have "16 \<le> length (simpleHash (e @ s))" by (rule IH)
    then show False using simpleHash_length [of "e @ s"] by simp
  qed
qed

lemma padLoop_short_diverges: "length encrypted < 16 \<Longrightarrow> padLoop seed encrypted = None"
  using padLoop_returns_long [of seed encrypted] by (cases "padLoop seed encrypted") auto

lemma generateStableId_diverges: "generateStableId chatId = None"
  unfolding generateStableId_def Let_def
  using padLoop_short_diverges [of "simpleHash (chatId @ ''_'' @ ENCRYPTION_KEY)"]
    simpleHash_length [of "chatId @ ''_'' @ ENCRYPTION_KEY"]
  by simp

text \<open>
  C8. \<open>encryptChatId\<close> is meant to return 16 alphanumeric characters, and the padding
  loop of \<open>generateStableId\<close> is meant to end. It does not: \<open>simpleHash\<close> renders the
  absolute value of a 32-bit integer in base 36, which is at most 6 characters, so the loop
  condition \<open>encrypted.length < 16\<close> holds in every round and \<open>encryptChatId\<close> returns for
  no chat id.
\<close>

theorem encryptChatId_never_returns:
  "length (simpleHash str) < 16 \<and> encryptChatId chatId = None"
  using simpleHash_length [of str] generateStableId_diverges
  by (simp add: encryptChatId_def)

lemma tryDecode_cases: "tryDecode encryptedId = None \<or> tryDecode encryptedId = Some None"
  by (simp add: tryDecode_def encryptChatId_def generateStableId_diverges split: number.splits)

lemma bruteForce_diverges: "bruteForce encryptedId 1 = None"
  by (simp add: bruteForce.simps [of encryptedId 1] encryptChatId_def generateStableId_diverges)

text \<open>
  C9. The round trip \<open>decryptChatId(encryptChatId(n)) = n\<close> is what the test script
  expects. It is never reached: every path of \<open>decryptChatId\<close> calls \<open>encryptChatId\<close>,
  which does not return, so neither \<open>decryptChatId\<close> nor the round trip returns.
\<close>

theorem decryptChatId_never_returns:
  "decryptChatId encryptedId = None
   \<and> Option.bind (encryptChatId (IdNumber n)) decryptChatId = None"
  using tryDecode_cases [of encryptedId] bruteForce_diverges [of encryptedId]
  by (auto simp add: decryptChatId_def encryptChatId_def generateStableId_diverges)

section \<open>Properties of the session cookies\<close>

lemma getCookie_nonempty: "getCookie name b \<noteq> Some []"
  by (auto simp add: getCookie_def Let_def split: option.splits list.splits)

lemma isSessionValid_iff:
  "isSessionValid b \<longleftrightarrow>
     (\<exists>tok ts la. getCookie ''token'' b = Some tok \<and> getCookie ''lastActivity'' b = Some ts
        \<and> parseInt ts 0 = Num la \<and> la \<noteq> 0 \<and> now b - la < 2 * 24 * 60 * 60 * 1000)"
  using getCookie_nonempty [of "''token''" b]
  by (auto simp add: isSessionValid_def getLastActivity_def Let_def SESSION_DURATION_DAYS_def
      split: option.splits number.splits)

lemma clearSession_document:
  "clearSession b =
     b\<lparr>document :=
         map_option
           (filter (\<lambda>c. \<not> ((cookie_name c = ''token'' \<or> cookie_name c = ''lastActivity'')
                             \<and> cookie_path c = ''/'' \<and> cookie_domain c = None)))
           (document b)\<rparr>"
proof (cases "document b")
  case None
  then show ?thesis by (simp add: clearSession_def deleteCookie_def)
next
  case (Some jar)
  have "filter (\<lambda>c. \<not> (cookie_name c = ''lastActivity'' \<and> cookie_path c = ''/''
                          \<and> cookie_domain c = None))
          (filter (\<lambda>c. \<not> (cookie_name c = ''token'' \<and> cookie_path c = ''/''
                            \<and> cookie_domain c = None)) jar)
        = filter (\<lambda>c. \<not> ((cookie_name c = ''token'' \<or> cookie_name c = ''lastActivity'')
                           \<and> cookie_path c = ''/'' \<and> cookie_domain c = None)) jar"
    by (induction jar) auto
  with Some show ?thesis by (simp add: clearSession_def deleteCookie_def)
qed

lemma getAuthToken_nonempty: "fst (getAuthToken b) \<noteq> Some []"
  by (simp add: getAuthToken_def getCookie_nonempty)

text \<open>
  C10. \<open>getAuthToken\<close> returns only the value of the \<open>token\<close> cookie, and only when
  \<open>getCookie\<close> finds the \<open>token\<close> and the \<open>lastActivity\<close> cookie and the time since
  \<open>lastActivity\<close> is strictly less than 2 days; so it never returns a token for a session
  that has been inactive for 2 days or more. On every clock that reads at least two days
  past the epoch it does return the token whenever those conditions hold. When it returns
  the token the browser is left as it is. In every other case it returns \<open>null\<close> and
  deletes the \<open>token\<close> and the \<open>lastActivity\<close> cookie: the cookies of these names with
  path \<open>/\<close> and no domain, which are the ones \<open>setCookie\<close> stores, are dropped, and
  nothing else changes.
\<close>

theorem getAuthToken_valid_session:
  "(\<forall>tok. fst (getAuthToken b) = Some tok \<longrightarrow>
      getCookie ''token'' b = Some tok
      \<and> (\<exists>ts la. getCookie ''lastActivity'' b = Some ts \<and> parseInt ts 0 = Num la
            \<and> now b - la < 2 * 24 * 60 * 60 * 1000))
   \<and> (2 * 24 * 60 * 60 * 1000 \<le> now b \<longrightarrow>
        (\<forall>tok ts la. getCookie ''token'' b = Some tok \<and> getCookie ''lastActivity'' b = Some ts
            \<and> parseInt ts 0 = Num la \<and> now b - la < 2 * 24 * 60 * 60 * 1000 \<longrightarrow>
            fst (getAuthToken b) = Some tok))
   \<and> (fst (getAuthToken b) \<noteq> None \<longrightarrow> snd (getAuthToken b) = b)
   \<and> (fst (getAuthToken b) = None \<longrightarrow>
        snd (getAuthToken b)
          = b\<lparr>document :=
                map_option
                  (filter (\<lambda>c. \<not> ((cookie_name c = ''token'' \<or> cookie_name c = ''lastActivity'')
                                    \<and> cookie_path c = ''/'' \<and> cookie_domain c = None)))
                  (document b)\<rparr>
        \<and> (\<forall>jar. document (snd (getAuthToken b)) = Some jar \<longrightarrow>
              storedCookie ''token'' v \<notin> set jar \<and> storedCookie ''lastActivity'' v \<notin> set jar))"
proof (cases "isSessionValid b")
  case True
  then obtain tok ts la where v: "getCookie ''token'' b = Some tok"
    "getCookie ''lastActivity'' b = Some ts" "parseInt ts 0 = Num la" "la \<noteq> 0"
    "now b - la < 2 * 24 * 60 * 60 * 1000"
    unfolding isSessionValid_iff by blast
  from True have g: "getAuthToken b = (getCookie ''token'' b, b)" by (simp add: getAuthToken_def)
  show ?thesis using v by (auto simp add: g)
next
  case False
  then have g: "getAuthToken b = (None, clearSession b)" by (simp add: getAuthToken_def)
  from False have no: "\<not> (\<exists>tok ts la. getCookie ''token'' b = Some tok
      \<and> getCookie ''lastActivity'' b = Some ts
      \<and> parseInt ts 0 = Num la \<and> la \<noteq> 0 \<and> now b - la < 2 * 24 * 60 * 60 * 1000)"
    unfolding isSessionValid_iff .
  have conv: "2 * 24 * 60 * 60 * 1000 \<le> now b \<longrightarrow>
        (\<forall>tok ts la. getCookie ''token'' b = Some tok \<and> getCookie ''lastActivity'' b = Some ts
            \<and> parseInt ts 0 = Num la \<and> now b - la < 2 * 24 * 60 * 60 * 1000 \<longrightarrow>
            fst (getAuthToken b) = Some tok)"
  proof (intro impI allI)
    fix tok ts la
    assume clock: "2 * 24 * 60 * 60 * 1000 \<le> now b"
      and h: "getCookie ''token'' b = Some tok \<and> getCookie ''lastActivity'' b = Some ts
            \<and> parseInt ts 0 = Num la \<and> now b - la < 2 * 24 * 60 * 60 * 1000"
    from clock h have "la \<noteq> 0" by auto
    with h no show "fst (getAuthToken b) = Some tok" by blast
  qed
  have gone: "\<forall>jar. document (clearSession b) = Some jar \<longrightarrow>
      storedCookie ''token'' v \<notin> set jar \<and> storedCookie ''lastActivity'' v \<notin> set jar"
    by (cases "document b") (auto simp add: clearSession_document storedCookie_def)
  have none: "\<forall>tok. fst (getAuthToken b) = Some tok \<longrightarrow>
      getCookie ''token'' b = Some tok
      \<and> (\<exists>ts la. getCookie ''lastActivity'' b = Some ts \<and> parseInt ts 0 = Num la
            \<and> now b - la < 2 * 24 * 60 * 60 * 1000)"
    by (simp add: g)
  have same: "fst (getAuthToken b) \<noteq> None \<longrightarrow> snd (getAuthToken b) = b" by (simp add: g)
  have s: "snd (getAuthToken b) = clearSession b" by (simp add: g)
  have left: "snd (getAuthToken b)
      = b\<lparr>document :=
            map_option
              (filter (\<lambda>c. \<not> ((cookie_name c = ''token'' \<or> cookie_name c = ''lastActivity'')
                                \<and> cookie_path c = ''/'' \<and> cookie_domain c = None)))
              (document b)\<rparr>"
    unfolding s by (rule clearSession_document)
  have dropped: "\<forall>jar. document (snd (getAuthToken b)) = Some jar \<longrightarrow>
      storedCookie ''token'' v \<notin> set jar \<and> storedCookie ''lastActivity'' v \<notin> set jar"
    unfolding s by (rule gone)
  from none conv same left dropped show ?thesis by blast
qed

theorem getAuthToken_valid_session_witness:
  "fst (getAuthToken
      \<lparr>document = Some [storedCookie ''token'' ''abc'',
                        storedCookie ''lastActivity'' ''1700000000000''],
       now = 1700000000500\<rparr>) = Some ''abc''
   \<and> snd (getAuthToken
      \<lparr>document = Some [storedCookie ''token'' ''abc'',
                        storedCookie ''lastActivity'' ''1700000000000''],
       now = 1700000000500\<rparr>)
     = \<lparr>document = Some [storedCookie ''token'' ''abc'',
                         storedCookie ''lastActivity'' ''1700000000000''],
        now = 1700000000500\<rparr>
   \<and> fst (getAuthToken
      \<lparr>document = Some [storedCookie ''token'' ''abc'',
                        storedCookie ''lastActivity'' ''1700000000000''],
       now = 1700172800000\<rparr>) = None
   \<and> snd (getAuthToken
      \<lparr>document = Some [storedCookie ''token'' ''abc'',
                        storedCookie ''lastActivity'' ''1700000000000''],
       now = 1700172800000\<rparr>)
     = \<lparr>document = Some [], now = 1700172800000\<rparr>"
proof -
  let ?jar = "[storedCookie ''token'' ''abc'', storedCookie ''lastActivity'' ''1700000000000'']"
  let ?b = "\<lparr>document = Some ?jar, now = 1700000000500\<rparr>"
  let ?b2 = "\<lparr>document = Some ?jar, now = 1700172800000\<rparr>"
  have c1: "getCookie ''token'' ?b = Some ''abc''" by code_simp
  have c2: "getCookie ''lastActivity'' ?b = Some ''1700000000000''" by code_simp
  have c3: "parseInt ''1700000000000'' 0 = Num 1700000000000" by code_simp
  have c4: "now ?b - 1700000000000 < 2 * 24 * 60 * 60 * 1000" by simp
  have c5: "2 * 24 * 60 * 60 * 1000 \<le> now ?b" by simp
  have d2: "getCookie ''lastActivity'' ?b2 = Some ''1700000000000''" by code_simp
  have d4: "\<not> now ?b2 - 1700000000000 < 2 * 24 * 60 * 60 * 1000" by simp
  have d5: "?b2\<lparr>document :=
                map_option
                  (filter (\<lambda>c. \<not> ((cookie_name c = ''token'' \<or> cookie_name c = ''lastActivity'')
                                    \<and> cookie_path c = ''/'' \<and> cookie_domain c = None)))
                  (document ?b2)\<rparr>
      = \<lparr>document = Some [], now = 1700172800000\<rparr>"
    by (simp add: storedCookie_def)
  note T = getAuthToken_valid_session [of ?b]
  from T c5 have "\<forall>tok ts la. getCookie ''token'' ?b = Some tok
      \<and> getCookie ''lastActivity'' ?b = Some ts
      \<and> parseInt ts 0 = Num la \<and> now ?b - la < 2 * 24 * 60 * 60 * 1000 \<longrightarrow>
      fst (getAuthToken ?b) = Some tok" by blast
  with c1 c2 c3 c4 have r1: "fst (getAuthToken ?b) = Some ''abc''" by blast
  with T have r2: "snd (getAuthToken ?b) = ?b" by simp
  note T2 = getAuthToken_valid_session [of ?b2]
  have r3: "fst (getAuthToken ?b2) = None"
  proof (cases "fst (getAuthToken ?b2)")
    case None
    then show ?thesis .
  next
    case (Some tok)
    with T2 obtain ts la where "getCookie ''lastActivity'' ?b2 = Some ts" "parseInt ts 0 = Num la"
      "now ?b2 - la < 2 * 24 * 60 * 60 * 1000" by blast
    with d2 c3 d4 show ?thesis by simp
  qed
  with T2 have "snd (getAuthToken ?b2)
      = ?b2\<lparr>document :=
                map_option
                  (filter (\<lambda>c. \<not> ((cookie_name c = ''token'' \<or> cookie_name c = ''lastActivity'')
                                    \<and> cookie_path c = ''/'' \<and> cookie_domain c = None)))
                  (document ?b2)\<rparr>" by blast
  with d5 have r4: "snd (getAuthToken ?b2) = \<lparr>document = Some [], now = 1700172800000\<rparr>" by simp
  from r1 r2 r3 r4 show ?thesis by simp
qed

section \<open>Properties of the settings page\<close>

lemma startsWith_iff: "startsWith str p \<longleftrightarrow> (\<exists>rest. str = p @ rest)"
proof
  assume "startsWith str p"
  then have "str = p @ drop (length p) str"
    unfolding startsWith_def by (metis append_take_drop_id)
  then show "\<exists>rest. str = p @ rest" ..
next
  assume "\<exists>rest. str = p @ rest"
  then show "startsWith str p" unfolding startsWith_def by auto
qed

lemma includesStr_iff: "includesStr str sub \<longleftrightarrow> (\<exists>pre post. str = pre @ sub @ post)"
proof (induction str)
  case Nil
  show ?case by auto
next
  case (Cons c cs)
  show ?case
  proof
    assume "includesStr (c # cs) sub"
    then consider "startsWith (c # cs) sub" | "includesStr cs sub" by auto
    then show "\<exists>pre post. c # cs = pre @ sub @ post"
    proof cases
      case 1
      then obtain rest where "c # cs = sub @ rest" unfolding startsWith_iff ..
      then have "c # cs = [] @ sub @ rest" by simp
      then show ?thesis by blast
    next
      case 2
      with Cons.IH obtain pre post where "cs = pre @ sub @ post" by blast
      then have "c # cs = (c # pre) @ sub @ post" by simp
      then show ?thesis by blast
    qed
  next
    assume "\<exists>pre post. c # cs = pre @ sub @ post"
    then obtain pre post where eq: "c # cs = pre @ sub @ post" by blast
    show "includesStr (c # cs) sub"
    proof (cases pre)
      case Nil
      with eq have "startsWith (c # cs) sub" unfolding startsWith_iff by auto
      then show ?thesis by simp
    next
      case (Cons d pre')
      with eq have "cs = pre' @ sub @ post" by simp
      with Cons.IH have "includesStr cs sub" by blast
      then show ?thesis by simp
    qed
  qed
qed

lemma handleAdd_no_token:
  assumes "fst (getAuthToken b) = None"
  shows "handleAddMcpServer post listed (b, p)
         = ((snd (getAuthToken b), p\<lparr>mcpServerLoading := True, error := []\<rparr>), [])"
  using assms by (cases "getAuthToken b") (simp add: handleAddMcpServer_def)

lemma handleAdd_invalid_url:
  assumes "fst (getAuthToken b) = Some tok" and "mcpServerType p = ''pipedream''"
    and "\<not> startsWith (mcpServerUrl p) ''https://mcp.pipedream.net/''"
  shows "handleAddMcpServer post listed (b, p)
         = ((snd (getAuthToken b),
             p\<lparr>mcpServerLoading := True, error := [],
               error := ''Invalid Pipedream URL. Must start with https://mcp.pipedream.net/'',
               mcpServerLoading := False\<rparr>), [])"
proof -
  from assms(1) getAuthToken_nonempty [of b] have "tok \<noteq> []" by auto
  with assms show ?thesis by (cases "getAuthToken b") (simp add: handleAddMcpServer_def)
qed

lemma handleAdd_requests:
  "snd (handleAddMcpServer post listed (b, p)) =
     (case fst (getAuthToken b) of
        None \<Rightarrow> []
      | Some tok \<Rightarrow>
          if mcpServerType p = ''pipedream''
             \<and> \<not> startsWith (mcpServerUrl p) ''https://mcp.pipedream.net/''
          then [] else [createRequest tok p])"
  using getAuthToken_nonempty [of b]
  by (cases "getAuthToken b")
    (auto simp add: handleAddMcpServer_def createRequest_def Let_def
      split: option.splits post_outcome.splits prod.splits)

lemma optIncludes_both:
  "optIncludes uri s1 \<and> optIncludes uri s2 \<longleftrightarrow>
     (\<exists>u a b c d. uri = Some u \<and> u = a @ s1 @ b \<and> u = c @ s2 @ d)"
proof (cases uri)
  case None
  then show ?thesis by simp
next
  case (Some v)
  have "includesStr v s1 \<and> includesStr v s2 \<longleftrightarrow>
      (\<exists>a b c d. v = a @ s1 @ b \<and> v = c @ s2 @ d)"
    unfolding includesStr_iff by blast
  with Some show ?thesis by simp
qed

text \<open>
  C5, as stated, fails for a submission without a session: \<open>handleAddMcpServer\<close> asks
  \<open>getAuthToken\<close> for the token before it validates the URL and returns at once when
  there is none. With an empty cookie jar, the type \<open>pipedream\<close> and a URL that lacks the
  prefix, no create request is issued, but no validation error is set either.
\<close>

theorem handleAddMcpServer_counterexample:
  "\<not> startsWith ''http://example.com/mcp'' ''https://mcp.pipedream.net/''
   \<and> snd (handleAddMcpServer (\<lambda>r. PostOk) (ListOk None)
        (\<lparr>document = Some [], now = 1700000000000\<rparr>,
         \<lparr>mcpServers = [], mcpServerName = ''mail'', mcpServerType = ''pipedream'',
          mcpServerDescription = [], mcpServerUrl = ''http://example.com/mcp'',
          mcpServerLoading = False, mcpServersLoading = False, error = [],
          oauthStatus = []\<rparr>)) = []
   \<and> error (snd (fst (handleAddMcpServer (\<lambda>r. PostOk) (ListOk None)
        (\<lparr>document = Some [], now = 1700000000000\<rparr>,
         \<lparr>mcpServers = [], mcpServerName = ''mail'', mcpServerType = ''pipedream'',
          mcpServerDescription = [], mcpServerUrl = ''http://example.com/mcp'',
          mcpServerLoading = False, mcpServersLoading = False, error = [],
          oauthStatus = []\<rparr>)))) = []"
  by code_simp

text \<open>
  C5, amended. For a submission with the selected type \<open>pipedream\<close>: when \<open>getAuthToken\<close>
  yields no token the handler issues no create request and sets no error; when it yields a
  token and the URL does not start with \<open>https://mcp.pipedream.net/\<close> the add fails with
  the validation error, no create request is issued and the server list is unchanged; when
  it yields a token and the URL has the prefix, exactly one create request is issued, with
  that token, the entered name and the entered URL.
\<close>

theorem handleAddMcpServer_pipedream_validation:
  assumes "mcpServerType p = ''pipedream''"
  shows "(fst (getAuthToken b) = None \<longrightarrow>
            snd (handleAddMcpServer post listed (b, p)) = []
            \<and> error (snd (fst (handleAddMcpServer post listed (b, p)))) = [])
       \<and> (fst (getAuthToken b) \<noteq> None
            \<and> \<not> (\<exists>rest. mcpServerUrl p = ''https://mcp.pipedream.net/'' @ rest) \<longrightarrow>
            snd (handleAddMcpServer post listed (b, p)) = []
            \<and> error (snd (fst (handleAddMcpServer post listed (b, p))))
                = ''Invalid Pipedream URL. Must start with https://mcp.pipedream.net/''
            \<and> mcpServers (snd (fst (handleAddMcpServer post listed (b, p)))) = mcpServers p)
       \<and> (fst (getAuthToken b) \<noteq> None
            \<and> (\<exists>rest. mcpServerUrl p = ''https://mcp.pipedream.net/'' @ rest) \<longrightarrow>
            (\<exists>r. snd (handleAddMcpServer post listed (b, p)) = [r]
                 \<and> fst (getAuthToken b) = Some (bearer r)
                 \<and> req_name r = mcpServerName p \<and> config_uri r = mcpServerUrl p))"
proof (intro conjI impI)
  assume "fst (getAuthToken b) = None"
  then show "snd (handleAddMcpServer post listed (b, p)) = []"
    and "error (snd (fst (handleAddMcpServer post listed (b, p)))) = []"
    by (simp_all add: handleAdd_no_token)
next
  assume a: "fst (getAuthToken b) \<noteq> None
    \<and> \<not> (\<exists>rest. mcpServerUrl p = ''https://mcp.pipedream.net/'' @ rest)"
  then obtain tok where tok: "fst (getAuthToken b) = Some tok" by auto
  from a have bad: "\<not> startsWith (mcpServerUrl p) ''https://mcp.pipedream.net/''"
    unfolding startsWith_iff by simp
  note eq = handleAdd_invalid_url [OF tok assms bad, of post listed]
  show "snd (handleAddMcpServer post listed (b, p)) = []" by (simp add: eq)
  show "error (snd (fst (handleAddMcpServer post listed (b, p))))
          = ''Invalid Pipedream URL. Must start with https://mcp.pipedream.net/''"
    by (simp add: eq)
  show "mcpServers (snd (fst (handleAddMcpServer post listed (b, p)))) = mcpServers p"
    by (simp add: eq)
next
  assume a: "fst (getAuthToken b) \<noteq> None
    \<and> (\<exists>rest. mcpServerUrl p = ''https://mcp.pipedream.net/'' @ rest)"
  then obtain tok where tok: "fst (getAuthToken b) = Some tok" by auto
  from a have good: "startsWith (mcpServerUrl p) ''https://mcp.pipedream.net/''"
    unfolding startsWith_iff by simp
  have "snd (handleAddMcpServer post listed (b, p)) = [createRequest tok p]"
    by (simp add: handleAdd_requests tok good)
  moreover have "bearer (createRequest tok p) = tok" "req_name (createRequest tok p) = mcpServerName p"
    "config_uri (createRequest tok p) = mcpServerUrl p"
    by (simp_all add: createRequest_def)
  ultimately show "\<exists>r. snd (handleAddMcpServer post listed (b, p)) = [r]
      \<and> fst (getAuthToken b) = Some (bearer r)
      \<and> req_name r = mcpServerName p \<and> config_uri r = mcpServerUrl p"
    using tok by simp
qed

theorem handleAddMcpServer_pipedream_validation_witness:
  "mcpServerType
      \<lparr>mcpServers = [], mcpServerName = ''mail'', mcpServerType = ''pipedream'',
       mcpServerDescription = [], mcpServerUrl = ''http://example.com/mcp'',
       mcpServerLoading = False, mcpServersLoading = False, error = [],
       oauthStatus = []\<rparr> = ''pipedream''
   \<and> fst (getAuthToken
        \<lparr>document = Some [storedCookie ''token'' ''abc'', storedCookie ''lastActivity'' ''1700000000000''],
         now = 1700000000500\<rparr>) = Some ''abc''
   \<and> snd (handleAddMcpServer (\<lambda>r. PostOk) (ListOk None)
        (\<lparr>document = Some [storedCookie ''token'' ''abc'', storedCookie ''lastActivity'' ''1700000000000''],
          now = 1700000000500\<rparr>,
         \<lparr>mcpServers = [], mcpServerName = ''mail'', mcpServerType = ''pipedream'',
          mcpServerDescription = [], mcpServerUrl = ''http://example.com/mcp'',
          mcpServerLoading = False, mcpServersLoading = False, error = [],
          oauthStatus = []\<rparr>)) = []
   \<and> error (snd (fst (handleAddMcpServer (\<lambda>r. PostOk) (ListOk None)
        (\<lparr>document = Some [storedCookie ''token'' ''abc'', storedCookie ''lastActivity'' ''1700000000000''],
          now = 1700000000500\<rparr>,
         \<lparr>mcpServers = [], mcpServerName = ''mail'', mcpServerType = ''pipedream'',
          mcpServerDescription = [], mcpServerUrl = ''http://example.com/mcp'',
          mcpServerLoading = False, mcpServersLoading = False, error = [],
          oauthStatus = []\<rparr>))))
       = ''Invalid Pipedream URL. Must start with https://mcp.pipedream.net/''
   \<and> length (snd (handleAddMcpServer (\<lambda>r. PostOk) (ListOk None)
        (\<lparr>document = Some [storedCookie ''token'' ''abc'', storedCookie ''lastActivity'' ''1700000000000''],
          now = 1700000000500\<rparr>,
         \<lparr>mcpServers = [], mcpServerName = ''mail'', mcpServerType = ''pipedream'',
          mcpServerDescription = [], mcpServerUrl = ''https://mcp.pipedream.net/w1/gmail'',
          mcpServerLoading = False, mcpServersLoading = False, error = [],
          oauthStatus = []\<rparr>))) = 1
   \<and> snd (handleAddMcpServer (\<lambda>r. PostOk) (ListOk None)
        (\<lparr>document = Some [], now = 1700000000500\<rparr>,
         \<lparr>mcpServers = [], mcpServerName = ''mail'', mcpServerType = ''pipedream'',
          mcpServerDescription = [], mcpServerUrl = ''https://mcp.pipedream.net/w1/gmail'',
          mcpServerLoading = False, mcpServersLoading = False, error = [],
          oauthStatus = []\<rparr>)) = []"
proof -
  let ?out = "\<lparr>document = Some [], now = 1700000000500\<rparr>"
  let ?b = "\<lparr>document = Some [storedCookie ''token'' ''abc'', storedCookie ''lastActivity'' ''1700000000000''],
             now = 1700000000500\<rparr>"
  let ?bad = "\<lparr>mcpServers = [], mcpServerName = ''mail'', mcpServerType = ''pipedream'',
          mcpServerDescription = [], mcpServerUrl = ''http://example.com/mcp'',
          mcpServerLoading = False, mcpServersLoading = False, error = [],
          oauthStatus = []\<rparr>"
  let ?good = "\<lparr>mcpServers = [], mcpServerName = ''mail'', mcpServerType = ''pipedream'',
          mcpServerDescription = [], mcpServerUrl = ''https://mcp.pipedream.net/w1/gmail'',
          mcpServerLoading = False, mcpServersLoading = False, error = [],
          oauthStatus = []\<rparr>"
  have tok: "fst (getAuthToken ?b) = Some ''abc''" by code_simp
  have "\<not> startsWith (mcpServerUrl ?bad) ''https://mcp.pipedream.net/''" by code_simp
  then have bad: "\<not> (\<exists>rest. mcpServerUrl ?bad = ''https://mcp.pipedream.net/'' @ rest)"
    unfolding startsWith_iff .
  have "startsWith (mcpServerUrl ?good) ''https://mcp.pipedream.net/''" by code_simp
  then have good: "\<exists>rest. mcpServerUrl ?good = ''https://mcp.pipedream.net/'' @ rest"
    unfolding startsWith_iff .
  have t1: "mcpServerType ?bad = ''pipedream''" and t2: "mcpServerType ?good = ''pipedream''"
    by simp_all
  note B = handleAddMcpServer_pipedream_validation [OF t1, of ?b "\<lambda>r. PostOk" "ListOk None"]
  note G = handleAddMcpServer_pipedream_validation [OF t2, of ?b "\<lambda>r. PostOk" "ListOk None"]
  from B tok bad have r1: "snd (handleAddMcpServer (\<lambda>r. PostOk) (ListOk None) (?b, ?bad)) = []"
    and r2: "error (snd (fst (handleAddMcpServer (\<lambda>r. PostOk) (ListOk None) (?b, ?bad))))
       = ''Invalid Pipedream URL. Must start with https://mcp.pipedream.net/''"
    by simp_all
  from G tok good obtain r where
    "snd (handleAddMcpServer (\<lambda>r. PostOk) (ListOk None) (?b, ?good)) = [r]" by auto
  then have r3: "length (snd (handleAddMcpServer (\<lambda>r. PostOk) (ListOk None) (?b, ?good))) = 1"
    by simp
  have "fst (getAuthToken ?out) = None" by code_simp
  with handleAddMcpServer_pipedream_validation [OF t2, of ?out "\<lambda>r. PostOk" "ListOk None"]
  have r4: "snd (handleAddMcpServer (\<lambda>r. PostOk) (ListOk None) (?out, ?good)) = []" by blast
  from t1 tok r1 r2 r3 r4 show ?thesis by blast
qed

text \<open>
  C6. Every create request that the settings form issues for a selected type has a
  \<open>config.type\<close> among \<open>custom\<close>, \<open>stdio\<close>, \<open>websocket\<close> and \<open>sse\<close>, never \<open>pipedream\<close>:
  for the selected type \<open>pipedream\<close> the config has type \<open>custom\<close>, transport \<open>http\<close> and
  the entered URL as uri; for every other selected type both the type and the transport
  are the selected type.
\<close>

theorem created_config_type:
  assumes "selectableType (mcpServerType p)"
    and "r \<in> set (snd (handleAddMcpServer post listed (b, p)))"
  shows "config_type r \<in> {''custom'', ''stdio'', ''websocket'', ''sse''}
       \<and> config_type r \<noteq> ''pipedream''
       \<and> (mcpServerType p = ''pipedream'' \<longrightarrow>
            config_type r = ''custom'' \<and> config_transport r = ''http''
            \<and> config_uri r = mcpServerUrl p)
       \<and> (mcpServerType p \<noteq> ''pipedream'' \<longrightarrow>
            config_type r = mcpServerType p \<and> config_transport r = mcpServerType p
            \<and> config_uri r = mcpServerUrl p)"
proof -
  from assms(2) obtain tok where r: "r = createRequest tok p"
    by (auto simp add: handleAdd_requests split: option.splits if_splits)
  from assms(1) have "mcpServerType p \<in> {''pipedream'', ''stdio'', ''sse'', ''websocket'', ''custom''}"
    by (simp add: selectableType_def MCP_SERVER_TYPES_def)
  then show ?thesis unfolding r createRequest_def by auto
qed


theorem created_config_type_witness:
  "selectableType ''pipedream''
   \<and> createRequest ''abc''
        \<lparr>mcpServers = [], mcpServerName = ''mail'', mcpServerType = ''pipedream'',
         mcpServerDescription = [], mcpServerUrl = ''https://mcp.pipedream.net/w1/gmail'',
         mcpServerLoading = False, mcpServersLoading = False, error = [],
         oauthStatus = []\<rparr>
      \<in> set (snd (handleAddMcpServer (\<lambda>r. PostOk) (ListOk None)
        (\<lparr>document = Some [storedCookie ''token'' ''abc'', storedCookie ''lastActivity'' ''1700000000000''],
          now = 1700000000500\<rparr>,
         \<lparr>mcpServers = [], mcpServerName = ''mail'', mcpServerType = ''pipedream'',
          mcpServerDescription = [], mcpServerUrl = ''https://mcp.pipedream.net/w1/gmail'',
          mcpServerLoading = False, mcpServersLoading = False, error = [],
          oauthStatus = []\<rparr>)))
   \<and> config_type (createRequest ''abc''
        \<lparr>mcpServers = [], mcpServerName = ''mail'', mcpServerType = ''pipedream'',
         mcpServerDescription = [], mcpServerUrl = ''https://mcp.pipedream.net/w1/gmail'',
         mcpServerLoading = False, mcpServersLoading = False, error = [],
         oauthStatus = []\<rparr>) = ''custom''
   \<and> config_transport (createRequest ''abc''
        \<lparr>mcpServers = [], mcpServerName = ''mail'', mcpServerType = ''pipedream'',
         mcpServerDescription = [], mcpServerUrl = ''https://mcp.pipedream.net/w1/gmail'',
         mcpServerLoading = False, mcpServersLoading = False, error = [],
         oauthStatus = []\<rparr>) = ''http''
   \<and> selectableType ''stdio''
   \<and> createRequest ''abc''
        \<lparr>mcpServers = [], mcpServerName = ''files'', mcpServerType = ''stdio'',
         mcpServerDescription = [], mcpServerUrl = ''npx -y server-filesystem /tmp'',
         mcpServerLoading = False, mcpServersLoading = False, error = [],
         oauthStatus = []\<rparr>
      \<in> set (snd (handleAddMcpServer (\<lambda>r. PostOk) (ListOk None)
        (\<lparr>document = Some [storedCookie ''token'' ''abc'', storedCookie ''lastActivity'' ''1700000000000''],
          now = 1700000000500\<rparr>,
         \<lparr>mcpServers = [], mcpServerName = ''files'', mcpServerType = ''stdio'',
          mcpServerDescription = [], mcpServerUrl = ''npx -y server-filesystem /tmp'',
          mcpServerLoading = False, mcpServersLoading = False, error = [],
          oauthStatus = []\<rparr>)))
   \<and> config_type (createRequest ''abc''
        \<lparr>mcpServers = [], mcpServerName = ''files'', mcpServerType = ''stdio'',
         mcpServerDescription = [], mcpServerUrl = ''npx -y server-filesystem /tmp'',
         mcpServerLoading = False, mcpServersLoading = False, error = [],
         oauthStatus = []\<rparr>) = ''stdio''
   \<and> config_transport (createRequest ''abc''
        \<lparr>mcpServers = [], mcpServerName = ''files'', mcpServerType = ''stdio'',
         mcpServerDescription = [], mcpServerUrl = ''npx -y server-filesystem /tmp'',
         mcpServerLoading = False, mcpServersLoading = False, error = [],
         oauthStatus = []\<rparr>) = ''stdio''"
proof -
  let ?b = "\<lparr>document = Some [storedCookie ''token'' ''abc'', storedCookie ''lastActivity'' ''1700000000000''],
             now = 1700000000500\<rparr>"
  let ?good = "\<lparr>mcpServers = [], mcpServerName = ''mail'', mcpServerType = ''pipedream'',
          mcpServerDescription = [], mcpServerUrl = ''https://mcp.pipedream.net/w1/gmail'',
          mcpServerLoading = False, mcpServersLoading = False, error = [],
          oauthStatus = []\<rparr>"
  let ?io = "\<lparr>mcpServers = [], mcpServerName = ''files'', mcpServerType = ''stdio'',
         mcpServerDescription = [], mcpServerUrl = ''npx -y server-filesystem /tmp'',
         mcpServerLoading = False, mcpServersLoading = False, error = [],
         oauthStatus = []\<rparr>"
  have sel: "selectableType (mcpServerType ?good)" by code_simp
  have mem: "createRequest ''abc'' ?good
      \<in> set (snd (handleAddMcpServer (\<lambda>r. PostOk) (ListOk None) (?b, ?good)))"
    by code_simp
  have ty: "mcpServerType ?good = ''pipedream''" by simp
  from created_config_type [OF sel mem] ty
  have p1: "config_type (createRequest ''abc'' ?good) = ''custom''"
    and p2: "config_transport (createRequest ''abc'' ?good) = ''http''" by blast+
  have sel2: "selectableType (mcpServerType ?io)" by code_simp
  have mem2: "createRequest ''abc'' ?io
      \<in> set (snd (handleAddMcpServer (\<lambda>r. PostOk) (ListOk None) (?b, ?io)))"
    by code_simp
  have ty2: "mcpServerType ?io \<noteq> ''pipedream''" "mcpServerType ?io = ''stdio''" by simp_all
  from created_config_type [OF sel2 mem2] ty2
  have q1: "config_type (createRequest ''abc'' ?io) = ''stdio''"
    and q2: "config_transport (createRequest ''abc'' ?io) = ''stdio''" by simp_all
  from sel mem p1 p2 sel2 mem2 q1 q2 show ?thesis by simp
qed

text \<open>
  C7. The provider of a server is inferred from substrings of its \<open>config.uri\<close>, \<open>gmail\<close>
  first: it is \<open>gmail\<close> exactly when the uri contains \<open>pipedream.net\<close> and \<open>gmail\<close>;
  otherwise it is \<open>google\<close> exactly when the uri contains \<open>pipedream.net\<close> and \<open>google\<close>;
  in all other cases there is none. No OAuth control is rendered exactly when no provider
  is inferred; with a provider the control is the authenticate or the revoke button for
  that provider.
\<close>

theorem detectProvider_substring:
  "(detectProvider server = Some ''gmail'' \<longleftrightarrow>
      (\<exists>u a b c d. server_config_uri server = Some u
         \<and> u = a @ ''pipedream.net'' @ b \<and> u = c @ ''gmail'' @ d))
   \<and> (detectProvider server = Some ''google'' \<longleftrightarrow>
        detectProvider server \<noteq> Some ''gmail''
        \<and> (\<exists>u a b c d. server_config_uri server = Some u
              \<and> u = a @ ''pipedream.net'' @ b \<and> u = c @ ''google'' @ d))
   \<and> detectProvider server \<in> {None, Some ''gmail'', Some ''google''}
   \<and> (oauthControls statuses server = NoControls \<longleftrightarrow> detectProvider server = None)
   \<and> (\<forall>pr. detectProvider server = Some pr \<longrightarrow>
          oauthControls statuses server \<in> {AuthenticateButton pr, RevokeButton pr})"
proof -
  have gmail: "detectProvider server = Some ''gmail'' \<longleftrightarrow>
      optIncludes (server_config_uri server) ''pipedream.net''
      \<and> optIncludes (server_config_uri server) ''gmail''"
    by (simp add: detectProvider_def Let_def)
  have google: "detectProvider server = Some ''google'' \<longleftrightarrow>
      detectProvider server \<noteq> Some ''gmail''
      \<and> optIncludes (server_config_uri server) ''pipedream.net''
        \<and> optIncludes (server_config_uri server) ''google''"
    by (simp add: detectProvider_def Let_def)
  have range: "detectProvider server \<in> {None, Some ''gmail'', Some ''google''}"
    by (simp add: detectProvider_def Let_def)
  have ctl: "oauthControls statuses server = NoControls \<longleftrightarrow> detectProvider server = None"
    using range by (auto simp add: oauthControls_def Let_def split: option.splits)
  have btn: "\<forall>pr. detectProvider server = Some pr \<longrightarrow>
      oauthControls statuses server \<in> {AuthenticateButton pr, RevokeButton pr}"
    using range by (auto simp add: oauthControls_def Let_def split: option.splits)
  note g1 = gmail [unfolded optIncludes_both]
  note g2 = google [unfolded optIncludes_both]
  from g1 g2 range ctl btn show ?thesis by (intro conjI)
qed

theorem detectProvider_substring_witness:
  "detectProvider
      \<lparr>server_id = 1, server_name = ''mail'', server_description = None,
       server_config_type = Some ''custom'',
       server_config_uri = Some ''https://mcp.pipedream.net/w1/google-gmail''\<rparr> = Some ''gmail''
   \<and> oauthControls []
      \<lparr>server_id = 1, server_name = ''mail'', server_description = None,
       server_config_type = Some ''custom'',
       server_config_uri = Some ''https://mcp.pipedream.net/w1/google-gmail''\<rparr>
     = AuthenticateButton ''gmail''"
proof -
  let ?s = "\<lparr>server_id = 1, server_name = ''mail'', server_description = None,
       server_config_type = Some ''custom'',
       server_config_uri = Some ''https://mcp.pipedream.net/w1/google-gmail''\<rparr>"
  have u: "server_config_uri ?s = Some ''https://mcp.pipedream.net/w1/google-gmail''" by simp
  have a: "''https://mcp.pipedream.net/w1/google-gmail''
      = ''https://mcp.'' @ ''pipedream.net'' @ ''/w1/google-gmail''" by simp
  have b: "''https://mcp.pipedream.net/w1/google-gmail''
      = ''https://mcp.pipedream.net/w1/google-'' @ ''gmail'' @ []" by simp
  note T = detectProvider_substring [of ?s "[]"]
  from u a b have "\<exists>u a b c d. server_config_uri ?s = Some u
         \<and> u = a @ ''pipedream.net'' @ b \<and> u = c @ ''gmail'' @ d" by blast
  with T have p: "detectProvider ?s = Some ''gmail''" by blast
  with T have "oauthControls [] ?s \<in> {AuthenticateButton ''gmail'', RevokeButton ''gmail''}"
    by blast
  moreover have "oauthControls [] ?s \<noteq> RevokeButton ''gmail''" by code_simp
  ultimately have "oauthControls [] ?s = AuthenticateButton ''gmail''" by blast
  with p show ?thesis by simp
qed

section \<open>Properties of the confirmation broker\<close>

lemma Resolve_unknown:
  "table c = None \<Longrightarrow> Resolve t c a table = (Inl ConfirmationNotFound, table)"
  by (simp add: Resolve_def)

lemma Resolve_expired:
  "table c = Some r \<Longrightarrow> status r = Pending \<Longrightarrow> expiresAt r < t \<Longrightarrow>
     Resolve t c a table = (Inl ConfirmationExpired, table(c \<mapsto> r\<lparr>status := Expired\<rparr>))"
  by (simp add: Resolve_def)

lemma Resolve_resolved:
  "table c = Some r \<Longrightarrow> status r \<noteq> Pending \<Longrightarrow>
     Resolve t c a table = (Inl ConfirmationAlreadyResolved, table)"
  by (simp add: Resolve_def)

lemma Resolve_success:
  assumes "Resolve t c a table = (Inr r', table')"
  shows "\<exists>r. table c = Some r \<and> status r = Pending \<and> t \<le> expiresAt r
           \<and> r' = r\<lparr>status := (case a of Confirm \<Rightarrow> Confirmed | Cancel \<Rightarrow> Cancelled)\<rparr>
           \<and> table' = table(c \<mapsto> r')"
  using assms by (auto simp add: Resolve_def Let_def split: option.splits if_splits)

lemma Resolve_keeps_resolved:
  assumes "table c = Some r" and "status r \<noteq> Pending"
  shows "\<exists>r'. snd (Resolve t2 c2 a2 table) c = Some r' \<and> status r' \<noteq> Pending"
proof (cases "c2 = c")
  case True
  with assms show ?thesis by (simp add: Resolve_def)
next
  case False
  with assms show ?thesis
    by (cases a2) (auto simp add: Resolve_def Let_def split: option.splits)
qed

text \<open>
  C1. A record leaves the pending status at most once. \<open>Resolve\<close> on an unknown id fails
  with \<open>NotFound\<close> and changes nothing. After one successful \<open>Resolve\<close> of \<open>c\<close> the
  status is \<open>confirmed\<close> or \<open>cancelled\<close>, and a second call, with either action and at
  any time, returns \<open>AlreadyResolved\<close> and changes nothing. \<open>Resolve\<close> of a pending record
  past its \<open>expiresAt\<close> fails with \<open>Expired\<close> and marks the record expired; so does
  \<open>Resolve\<close> of a record more than 5 minutes after \<open>Create\<close> has made it. A record that
  is not pending stays so under every later \<open>Resolve\<close>, and every \<open>Resolve\<close> of it fails
  with \<open>AlreadyResolved\<close>.
\<close>

theorem Resolve_at_most_once:
  "(table c = None \<longrightarrow> Resolve t c a table = (Inl ConfirmationNotFound, table))
   \<and> (\<forall>r. table c = Some r \<and> status r = Pending \<and> expiresAt r < t \<longrightarrow>
          fst (Resolve t c a table) = Inl ConfirmationExpired
          \<and> snd (Resolve t c a table) c = Some (r\<lparr>status := Expired\<rparr>))
   \<and> (\<forall>t0 user intent message servers. t0 + 5 * 60 < t \<longrightarrow>
          fst (Resolve t c a (snd (Create c t0 user intent message servers table)))
            = Inl ConfirmationExpired
          \<and> map_option status
               (snd (Resolve t c a (snd (Create c t0 user intent message servers table))) c)
              = Some Expired)
   \<and> (\<forall>r table'. Resolve t c a table = (Inr r, table') \<longrightarrow>
          status r = (case a of Confirm \<Rightarrow> Confirmed | Cancel \<Rightarrow> Cancelled)
          \<and> (\<forall>t2 a2. Resolve t2 c a2 table' = (Inl ConfirmationAlreadyResolved, table')))
   \<and> (\<forall>r. table c = Some r \<and> status r \<noteq> Pending \<longrightarrow>
          Resolve t c a table = (Inl ConfirmationAlreadyResolved, table)
          \<and> (\<forall>t2 c2 a2. \<exists>r'. snd (Resolve t2 c2 a2 table) c = Some r' \<and> status r' \<noteq> Pending))"
proof (intro conjI allI impI)
  assume "table c = None"
  then show "Resolve t c a table = (Inl ConfirmationNotFound, table)" by (rule Resolve_unknown)
next
  fix r
  assume "table c = Some r \<and> status r = Pending \<and> expiresAt r < t"
  then have eq: "Resolve t c a table = (Inl ConfirmationExpired, table(c \<mapsto> r\<lparr>status := Expired\<rparr>))"
    by (simp add: Resolve_expired)
  show "fst (Resolve t c a table) = Inl ConfirmationExpired" by (simp add: eq)
  show "snd (Resolve t c a table) c = Some (r\<lparr>status := Expired\<rparr>)" by (simp add: eq)
next
  fix t0 :: int and user intent message :: string and servers :: "string list"
  assume late: "t0 + 5 * 60 < t"
  then show "fst (Resolve t c a (snd (Create c t0 user intent message servers table)))
      = Inl ConfirmationExpired"
    by (simp add: Resolve_def Create_def CONFIRMATION_TTL_def Let_def)
  from late show "map_option status
      (snd (Resolve t c a (snd (Create c t0 user intent message servers table))) c) = Some Expired"
    by (simp add: Resolve_def Create_def CONFIRMATION_TTL_def Let_def)
next
  fix r table'
  assume ok: "Resolve t c a table = (Inr r, table')"
  from Resolve_success [OF ok] obtain r0 where
    r: "r = r0\<lparr>status := (case a of Confirm \<Rightarrow> Confirmed | Cancel \<Rightarrow> Cancelled)\<rparr>"
    and tab: "table' = table(c \<mapsto> r)" by blast
  from r show st: "status r = (case a of Confirm \<Rightarrow> Confirmed | Cancel \<Rightarrow> Cancelled)" by simp
  then have np: "status r \<noteq> Pending" by (cases a) simp_all
  from tab have look: "table' c = Some r" by simp
  fix t2 a2
  from look np show "Resolve t2 c a2 table' = (Inl ConfirmationAlreadyResolved, table')"
    by (simp add: Resolve_resolved)
next
  fix r
  assume a: "table c = Some r \<and> status r \<noteq> Pending"
  then show "Resolve t c a table = (Inl ConfirmationAlreadyResolved, table)"
    by (simp add: Resolve_resolved)
  fix t2 c2 a2
  from a show "\<exists>r'. snd (Resolve t2 c2 a2 table) c = Some r' \<and> status r' \<noteq> Pending"
    using Resolve_keeps_resolved by blast
qed

theorem Resolve_at_most_once_witness:
  "fst (Resolve 20 ''c1'' Confirm
        (snd (Resolve 10 ''c1'' Confirm
           (snd (Create ''c1'' 0 ''u1'' ''email'' ''send an email'' [''gmail''] Map.empty)))))
     = Inl ConfirmationAlreadyResolved
   \<and> fst (Resolve 20 ''c1'' Cancel
        (snd (Resolve 10 ''c1'' Confirm
           (snd (Create ''c1'' 0 ''u1'' ''email'' ''send an email'' [''gmail''] Map.empty)))))
     = Inl ConfirmationAlreadyResolved
   \<and> fst (Resolve 301 ''c1'' Confirm
        (snd (Resolve 10 ''c1'' Confirm
           (snd (Create ''c1'' 0 ''u1'' ''email'' ''send an email'' [''gmail''] Map.empty)))))
     = Inl ConfirmationAlreadyResolved
   \<and> map_option status
        (snd (Resolve 301 ''c1'' Cancel
           (snd (Resolve 10 ''c1'' Confirm
              (snd (Create ''c1'' 0 ''u1'' ''email'' ''send an email'' [''gmail''] Map.empty)))))
         ''c1'') = Some Confirmed
   \<and> fst (Resolve 10 ''c2'' Confirm
        (snd (Create ''c1'' 0 ''u1'' ''email'' ''send an email'' [''gmail''] Map.empty)))
     = Inl ConfirmationNotFound
   \<and> fst (Resolve 301 ''c1'' Confirm
        (snd (Create ''c1'' 0 ''u1'' ''email'' ''send an email'' [''gmail''] Map.empty)))
     = Inl ConfirmationExpired
   \<and> fst (Resolve 302 ''c1'' Confirm
        (snd (Resolve 301 ''c1'' Confirm
           (snd (Create ''c1'' 0 ''u1'' ''email'' ''send an email'' [''gmail''] Map.empty)))))
     = Inl ConfirmationAlreadyResolved
   \<and> fst (Resolve 400 ''c1'' Cancel
        (snd (Create ''c1'' 0 ''u1'' ''email'' ''send an email'' [''gmail''] Map.empty)))
     = Inl ConfirmationExpired"
proof -
  let ?T = "snd (Create ''c1'' 0 ''u1'' ''email'' ''send an email'' [''gmail''] Map.empty)"
  let ?r0 = "\<lparr>confirmationId = ''c1'', userId = ''u1'', intentKind = ''email'',
      originalMessage = ''send an email'', candidateServers = [''gmail''],
      createdAt = 0, expiresAt = 300, status = Pending\<rparr>"
  have look: "?T ''c1'' = Some ?r0" and none: "?T ''c2'' = None"
    by (simp_all add: Create_def CONFIRMATION_TTL_def Let_def)
  obtain r table' where ok: "Resolve 10 ''c1'' Confirm ?T = (Inr r, table')"
    and look': "table' ''c1'' = Some r" and st: "status r = Confirmed"
    by (simp add: Resolve_def Create_def CONFIRMATION_TTL_def Let_def)
  from Resolve_at_most_once [of ?T "''c1''" 10 Confirm] ok
  have again: "\<forall>t2 a2. Resolve t2 ''c1'' a2 table' = (Inl ConfirmationAlreadyResolved, table')"
    by blast
  then have r1: "Resolve 20 ''c1'' Confirm table' = (Inl ConfirmationAlreadyResolved, table')"
    and r2: "Resolve 20 ''c1'' Cancel table' = (Inl ConfirmationAlreadyResolved, table')"
    and r5: "Resolve 301 ''c1'' Confirm table' = (Inl ConfirmationAlreadyResolved, table')"
    and r5': "Resolve 301 ''c1'' Cancel table' = (Inl ConfirmationAlreadyResolved, table')"
    by blast+
  from r5' look' st
  have r6: "map_option status (snd (Resolve 301 ''c1'' Cancel table') ''c1'') = Some Confirmed"
    by simp
  from Resolve_at_most_once [of ?T "''c2''" 10 Confirm] none
  have r3: "fst (Resolve 10 ''c2'' Confirm ?T) = Inl ConfirmationNotFound" by simp
  have pend: "?T ''c1'' = Some ?r0 \<and> status ?r0 = Pending \<and> expiresAt ?r0 < 301"
    using look by simp
  note E = Resolve_at_most_once [of ?T "''c1''" 301 Confirm]
  from E pend have r4: "fst (Resolve 301 ''c1'' Confirm ?T) = Inl ConfirmationExpired"
    and marked: "snd (Resolve 301 ''c1'' Confirm ?T) ''c1'' = Some (?r0\<lparr>status := Expired\<rparr>)"
    by blast+
  have "snd (Resolve 301 ''c1'' Confirm ?T) ''c1'' = Some (?r0\<lparr>status := Expired\<rparr>)
      \<and> status (?r0\<lparr>status := Expired\<rparr>) \<noteq> Pending"
    using marked by simp
  with Resolve_at_most_once [of "snd (Resolve 301 ''c1'' Confirm ?T)" "''c1''" 302 Confirm]
  have "Resolve 302 ''c1'' Confirm (snd (Resolve 301 ''c1'' Confirm ?T))
      = (Inl ConfirmationAlreadyResolved, snd (Resolve 301 ''c1'' Confirm ?T))"
    by blast
  then have r7: "fst (Resolve 302 ''c1'' Confirm (snd (Resolve 301 ''c1'' Confirm ?T)))
      = Inl ConfirmationAlreadyResolved" by simp
  from Resolve_at_most_once [of Map.empty "''c1''" 400 Cancel]
  have "(0::int) + 5 * 60 < 400 \<longrightarrow> fst (Resolve 400 ''c1'' Cancel ?T) = Inl ConfirmationExpired"
    by blast
  then have r8: "fst (Resolve 400 ''c1'' Cancel ?T) = Inl ConfirmationExpired" by simp
  from ok have "snd (Resolve 10 ''c1'' Confirm ?T) = table'" by simp
  with r1 r2 r3 r4 r5 r6 r7 r8 show ?thesis by simp
qed

section \<open>Properties of the OAuth token manager\<close>

lemma Complete_absent:
  "states store s = None \<Longrightarrow>
     CompleteAuthorization exchange t code s store = (Inl InvalidState, store)"
  by (simp add: CompleteAuthorization_def)

lemma Complete_expired:
  "states store s = Some r \<Longrightarrow> os_expiresAt r \<le> t \<Longrightarrow>
     CompleteAuthorization exchange t code s store = (Inl InvalidState, store)"
  by (simp add: CompleteAuthorization_def)

lemma Complete_states:
  "states (snd (CompleteAuthorization exchange t code s store)) s' = None
     \<or> states (snd (CompleteAuthorization exchange t code s store)) s' = states store s'"
  by (auto simp add: CompleteAuthorization_def Let_def split: option.splits sum.splits)

lemma Complete_success_deletes:
  assumes "CompleteAuthorization exchange t code s store = (Inr tok, store')"
  shows "states store' s = None"
  using assms
  by (auto simp add: CompleteAuthorization_def Let_def split: option.splits sum.splits if_splits)

lemma GetValidToken_states:
  "states (snd (GetValidToken refresh t u sv p store)) = states store"
  by (auto simp add: GetValidToken_def Let_def split: option.splits sum.splits)

lemma applyOp_absent:
  assumes "states store s = None" and "\<not> issues s op"
  shows "states (applyOp pv op store) s = None"
proof (cases op)
  case (OpBegin fresh t u sv p)
  with assms show ?thesis by (simp add: BeginAuthorization_def Let_def)
next
  case (OpComplete t code s')
  with assms Complete_states [of "exchangeCode pv" t code s' store s] show ?thesis by auto
next
  case (OpGetValidToken t u sv p)
  with assms show ?thesis by (simp add: GetValidToken_states)
next
  case (OpRevoke u sv p)
  with assms show ?thesis by (simp add: Revoke_def)
qed

lemma applyOps_absent:
  "states store s = None \<Longrightarrow> \<forall>op \<in> set ops. \<not> issues s op \<Longrightarrow>
     states (applyOps pv ops store) s = None"
proof (induction ops arbitrary: store)
  case Nil
  then show ?case by simp
next
  case (Cons op ops)
  from Cons.prems have "states (applyOp pv op store) s = None" by (simp add: applyOp_absent)
  with Cons show ?case by simp
qed

text \<open>
  C2. A successful \<open>CompleteAuthorization\<close> of the state \<open>s\<close> deletes the state record,
  and every later call with \<open>s\<close> fails with \<open>InvalidState\<close>, whatever the token manager
  has done in between, as long as no \<open>BeginAuthorization\<close> has drawn the same random
  token again: it succeeds at most once per state. A call at or after the state's
  \<open>expiresAt\<close> fails with \<open>InvalidState\<close>, and the lifetime of a state is 10 minutes.
\<close>

theorem CompleteAuthorization_single_use:
  "(\<forall>tok store'. CompleteAuthorization (exchangeCode pv) t code s store = (Inr tok, store') \<longrightarrow>
       states store' s = None
       \<and> (\<forall>ops t2 code2. (\<forall>op \<in> set ops. \<not> issues s op) \<longrightarrow>
             fst (CompleteAuthorization (exchangeCode pv) t2 code2 s (applyOps pv ops store'))
               = Inl InvalidState))
   \<and> (\<forall>r. states store s = Some r \<and> os_expiresAt r \<le> t \<longrightarrow>
          CompleteAuthorization (exchangeCode pv) t code s store = (Inl InvalidState, store))
   \<and> (\<forall>t0 u sv p. t0 + 10 * 60 \<le> t \<longrightarrow>
          fst (CompleteAuthorization (exchangeCode pv) t code s
                 (snd (BeginAuthorization (authorizeUrl pv) s t0 u sv p store)))
            = Inl InvalidState)"
proof (intro conjI allI impI)
  fix tok store'
  assume ok: "CompleteAuthorization (exchangeCode pv) t code s store = (Inr tok, store')"
  then show gone: "states store' s = None" by (rule Complete_success_deletes)
  fix ops t2 code2
  assume "\<forall>op \<in> set ops. \<not> issues s op"
  with gone have "states (applyOps pv ops store') s = None" by (rule applyOps_absent)
  then show "fst (CompleteAuthorization (exchangeCode pv) t2 code2 s (applyOps pv ops store'))
      = Inl InvalidState"
    by (simp add: Complete_absent)
next
  fix r
  assume "states store s = Some r \<and> os_expiresAt r \<le> t"
  then show "CompleteAuthorization (exchangeCode pv) t code s store = (Inl InvalidState, store)"
    by (simp add: Complete_expired)
next
  fix t0 u sv p
  assume "t0 + 10 * 60 \<le> t"
  then show "fst (CompleteAuthorization (exchangeCode pv) t code s
      (snd (BeginAuthorization (authorizeUrl pv) s t0 u sv p store))) = Inl InvalidState"
    by (simp add: CompleteAuthorization_def BeginAuthorization_def STATE_LIFETIME_def Let_def)
qed

theorem CompleteAuthorization_single_use_witness:
  "map_sum id accessToken
      (fst (CompleteAuthorization
         (\<lambda>p c. Inr \<lparr>resp_accessToken = ''at1'', resp_refreshToken = None,
                     resp_expiresIn = Some 3600, resp_scope = ''mail''\<rparr>)
         100 ''code1'' ''s1''
         (snd (BeginAuthorization (\<lambda>p s. ''https://accounts.example/auth?state='' @ s)
            ''s1'' 0 ''u1'' ''sv1'' ''gmail'' \<lparr>states = Map.empty, tokens = Map.empty\<rparr>))))
     = Inr ''at1''
   \<and> fst (CompleteAuthorization
         (\<lambda>p c. Inr \<lparr>resp_accessToken = ''at1'', resp_refreshToken = None,
                     resp_expiresIn = Some 3600, resp_scope = ''mail''\<rparr>)
         200 ''code1'' ''s1''
         (applyOps
            \<lparr>authorizeUrl = (\<lambda>p s. ''https://accounts.example/auth?state='' @ s),
             exchangeCode = (\<lambda>p c. Inr \<lparr>resp_accessToken = ''at1'', resp_refreshToken = None,
                     resp_expiresIn = Some 3600, resp_scope = ''mail''\<rparr>),
             refreshCall = (\<lambda>p c. Inr \<lparr>resp_accessToken = ''at1'', resp_refreshToken = None,
                     resp_expiresIn = Some 3600, resp_scope = ''mail''\<rparr>)\<rparr>
            [OpBegin ''s2'' 150 ''u1'' ''sv1'' ''gmail'', OpRevoke ''u1'' ''sv1'' ''gmail'']
            (snd (CompleteAuthorization
               (\<lambda>p c. Inr \<lparr>resp_accessToken = ''at1'', resp_refreshToken = None,
                           resp_expiresIn = Some 3600, resp_scope = ''mail''\<rparr>)
               100 ''code1'' ''s1''
               (snd (BeginAuthorization (\<lambda>p s. ''https://accounts.example/auth?state='' @ s)
                  ''s1'' 0 ''u1'' ''sv1'' ''gmail''
                  \<lparr>states = Map.empty, tokens = Map.empty\<rparr>))))))
     = Inl InvalidState
   \<and> fst (CompleteAuthorization
         (\<lambda>p c. Inr \<lparr>resp_accessToken = ''at1'', resp_refreshToken = None,
                     resp_expiresIn = Some 3600, resp_scope = ''mail''\<rparr>)
         600 ''code1'' ''s1''
         (snd (BeginAuthorization (\<lambda>p s. ''https://accounts.example/auth?state='' @ s)
            ''s1'' 0 ''u1'' ''sv1'' ''gmail'' \<lparr>states = Map.empty, tokens = Map.empty\<rparr>)))
     = Inl InvalidState
   \<and> fst (CompleteAuthorization
         (\<lambda>p c. Inr \<lparr>resp_accessToken = ''at1'', resp_refreshToken = None,
                     resp_expiresIn = Some 3600, resp_scope = ''mail''\<rparr>)
         50 ''code1'' ''s1''
         \<lparr>states = [''s1'' \<mapsto> \<lparr>os_state = ''s1'', os_userId = ''u1'', os_serverId = ''sv1'',
                      os_provider = ''gmail'', os_createdAt = - 600, os_expiresAt = 0\<rparr>],
          tokens = Map.empty\<rparr>)
     = Inl InvalidState"
proof -
  let ?resp = "\<lparr>resp_accessToken = ''at1'', resp_refreshToken = None,
                resp_expiresIn = Some 3600, resp_scope = ''mail''\<rparr>"
  let ?ex = "\<lambda>p c. Inr ?resp :: ErrorKind + token_response"
  let ?url = "\<lambda>p s. ''https://accounts.example/auth?state='' @ s"
  let ?pv = "\<lparr>authorizeUrl = ?url, exchangeCode = ?ex, refreshCall = ?ex\<rparr>"
  let ?empty = "\<lparr>states = Map.empty, tokens = Map.empty\<rparr>"
  let ?s1 = "snd (BeginAuthorization ?url ''s1'' 0 ''u1'' ''sv1'' ''gmail'' ?empty)"
  let ?ops = "[OpBegin ''s2'' 150 ''u1'' ''sv1'' ''gmail'', OpRevoke ''u1'' ''sv1'' ''gmail'']"
  let ?old = "\<lparr>os_state = ''s1'', os_userId = ''u1'', os_serverId = ''sv1'',
               os_provider = ''gmail'', os_createdAt = - 600, os_expiresAt = 0\<rparr>"
  let ?stale = "\<lparr>states = [''s1'' \<mapsto> ?old], tokens = Map.empty\<rparr>"
  have pv: "exchangeCode ?pv = ?ex" "authorizeUrl ?pv = ?url" by simp_all
  obtain tok store' where ok: "CompleteAuthorization ?ex 100 ''code1'' ''s1'' ?s1 = (Inr tok, store')"
    and at: "accessToken tok = ''at1''"
    by (simp add: CompleteAuthorization_def BeginAuthorization_def STATE_LIFETIME_def Let_def
        issueToken_def)
  note T = CompleteAuthorization_single_use [of ?pv 100 "''code1''" "''s1''" ?s1, unfolded pv]
  from T ok have "\<forall>ops t2 code2. (\<forall>op \<in> set ops. \<not> issues ''s1'' op) \<longrightarrow>
      fst (CompleteAuthorization ?ex t2 code2 ''s1'' (applyOps ?pv ops store')) = Inl InvalidState"
    by blast
  then have "(\<forall>op \<in> set ?ops. \<not> issues ''s1'' op) \<longrightarrow>
      fst (CompleteAuthorization ?ex 200 ''code1'' ''s1'' (applyOps ?pv ?ops store')) = Inl InvalidState"
    by blast
  moreover have "\<forall>op \<in> set ?ops. \<not> issues ''s1'' op" by simp
  ultimately have r2:
    "fst (CompleteAuthorization ?ex 200 ''code1'' ''s1'' (applyOps ?pv ?ops store')) = Inl InvalidState"
    by blast
  note T3 = CompleteAuthorization_single_use [of ?pv 600 "''code1''" "''s1''" ?empty, unfolded pv]
  then have "(0::int) + 10 * 60 \<le> 600 \<longrightarrow>
      fst (CompleteAuthorization ?ex 600 ''code1'' ''s1''
        (snd (BeginAuthorization ?url ''s1'' 0 ''u1'' ''sv1'' ''gmail'' ?empty))) = Inl InvalidState"
    by blast
  then have r3: "fst (CompleteAuthorization ?ex 600 ''code1'' ''s1'' ?s1) = Inl InvalidState"
    by simp
  have st: "states ?stale ''s1'' = Some ?old \<and> os_expiresAt ?old \<le> 50" by simp
  note T4 = CompleteAuthorization_single_use [of ?pv 50 "''code1''" "''s1''" ?stale, unfolded pv]
  from T4 st have "CompleteAuthorization ?ex 50 ''code1'' ''s1'' ?stale = (Inl InvalidState, ?stale)"
    by blast
  then have r4: "fst (CompleteAuthorization ?ex 50 ''code1'' ''s1'' ?stale) = Inl InvalidState"
    by simp
  from ok at have r1: "map_sum id accessToken (fst (CompleteAuthorization ?ex 100 ''code1'' ''s1'' ?s1))
      = Inr ''at1''" by simp
  from ok have "snd (CompleteAuthorization ?ex 100 ''code1'' ''s1'' ?s1) = store'" by simp
  with r1 r2 r3 r4 show ?thesis by simp
qed

text \<open>
  C3. \<open>GetValidToken\<close> never returns a token whose \<open>expiresAt\<close> lies before now. A stored
  token with \<open>expiresAt\<close> in the future is returned, and nothing changes. An expired token
  with a refresh token, whose refresh succeeds, is replaced: the new token is upserted and
  returned. If there is no refresh token or the refresh fails, the stored token is deleted
  and the call fails with \<open>ReauthRequired\<close>.
\<close>

theorem GetValidToken_never_expired:
  "(\<forall>tok e. fst (GetValidToken refresh t u sv p store) = Inr tok \<and> tok_expiresAt tok = Some e
        \<longrightarrow> t \<le> e)
   \<and> (\<forall>tok. tokens store (u, sv, p) = Some tok \<and> inFuture t tok \<longrightarrow>
          GetValidToken refresh t u sv p store = (Inr tok, store))
   \<and> (\<forall>tok rt resp. tokens store (u, sv, p) = Some tok \<and> \<not> inFuture t tok
          \<and> refreshToken tok = Some rt \<and> refresh p rt = Inr resp \<longrightarrow>
          GetValidToken refresh t u sv p store
            = (Inr (issueToken t u sv p resp),
               store\<lparr>tokens := (tokens store)((u, sv, p) \<mapsto> issueToken t u sv p resp)\<rparr>))
   \<and> (\<forall>tok. tokens store (u, sv, p) = Some tok \<and> \<not> inFuture t tok
          \<and> (refreshToken tok = None
               \<or> (\<exists>rt e. refreshToken tok = Some rt \<and> refresh p rt = Inl e)) \<longrightarrow>
          GetValidToken refresh t u sv p store
            = (Inl ReauthRequired, store\<lparr>tokens := (tokens store)((u, sv, p) := None)\<rparr>))"
proof (intro conjI allI impI)
  fix tok e
  assume a: "fst (GetValidToken refresh t u sv p store) = Inr tok \<and> tok_expiresAt tok = Some e"
  then show "t \<le> e"
    by (auto simp add: GetValidToken_def Let_def inFuture_def issueToken_def
        split: option.splits sum.splits if_splits)
next
  fix tok
  assume "tokens store (u, sv, p) = Some tok \<and> inFuture t tok"
  then show "GetValidToken refresh t u sv p store = (Inr tok, store)"
    by (simp add: GetValidToken_def)
next
  fix tok rt resp
  assume "tokens store (u, sv, p) = Some tok \<and> \<not> inFuture t tok
    \<and> refreshToken tok = Some rt \<and> refresh p rt = Inr resp"
  then show "GetValidToken refresh t u sv p store
      = (Inr (issueToken t u sv p resp),
         store\<lparr>tokens := (tokens store)((u, sv, p) \<mapsto> issueToken t u sv p resp)\<rparr>)"
    by (simp add: GetValidToken_def Let_def)
next
  fix tok
  assume "tokens store (u, sv, p) = Some tok \<and> \<not> inFuture t tok
    \<and> (refreshToken tok = None \<or> (\<exists>rt e. refreshToken tok = Some rt \<and> refresh p rt = Inl e))"
  then show "GetValidToken refresh t u sv p store
      = (Inl ReauthRequired, store\<lparr>tokens := (tokens store)((u, sv, p) := None)\<rparr>)"
    by (auto simp add: GetValidToken_def Let_def)
qed

theorem GetValidToken_never_expired_witness:
  "fst (GetValidToken
         (\<lambda>p rt. Inr \<lparr>resp_accessToken = ''at2'', resp_refreshToken = Some ''rt2'',
                      resp_expiresIn = Some 3600, resp_scope = ''mail''\<rparr>)
         1000 ''u1'' ''sv1'' ''gmail''
         \<lparr>states = Map.empty,
          tokens = [(''u1'', ''sv1'', ''gmail'') \<mapsto>
            \<lparr>tok_userId = ''u1'', tok_serverId = ''sv1'', tok_provider = ''gmail'',
             accessToken = ''at1'', refreshToken = Some ''rt1'', tok_expiresAt = Some 900,
             scope = ''mail''\<rparr>]\<rparr>)
     = Inr \<lparr>tok_userId = ''u1'', tok_serverId = ''sv1'', tok_provider = ''gmail'',
            accessToken = ''at2'', refreshToken = Some ''rt2'', tok_expiresAt = Some 4600,
            scope = ''mail''\<rparr>
   \<and> fst (GetValidToken (\<lambda>p rt. Inl Timeout) 1000 ''u1'' ''sv1'' ''gmail''
         \<lparr>states = Map.empty,
          tokens = [(''u1'', ''sv1'', ''gmail'') \<mapsto>
            \<lparr>tok_userId = ''u1'', tok_serverId = ''sv1'', tok_provider = ''gmail'',
             accessToken = ''at1'', refreshToken = Some ''rt1'', tok_expiresAt = Some 900,
             scope = ''mail''\<rparr>]\<rparr>)
     = Inl ReauthRequired
   \<and> fst (GetValidToken (\<lambda>p rt. Inl Timeout) 800 ''u1'' ''sv1'' ''gmail''
         \<lparr>states = Map.empty,
          tokens = [(''u1'', ''sv1'', ''gmail'') \<mapsto>
            \<lparr>tok_userId = ''u1'', tok_serverId = ''sv1'', tok_provider = ''gmail'',
             accessToken = ''at1'', refreshToken = Some ''rt1'', tok_expiresAt = Some 900,
             scope = ''mail''\<rparr>]\<rparr>)
     = Inr \<lparr>tok_userId = ''u1'', tok_serverId = ''sv1'', tok_provider = ''gmail'',
            accessToken = ''at1'', refreshToken = Some ''rt1'', tok_expiresAt = Some 900,
            scope = ''mail''\<rparr>"
proof -
  let ?tok = "\<lparr>tok_userId = ''u1'', tok_serverId = ''sv1'', tok_provider = ''gmail'',
             accessToken = ''at1'', refreshToken = Some ''rt1'', tok_expiresAt = Some 900,
             scope = ''mail''\<rparr>"
  let ?store = "\<lparr>states = Map.empty, tokens = [(''u1'', ''sv1'', ''gmail'') \<mapsto> ?tok]\<rparr>"
  let ?resp = "\<lparr>resp_accessToken = ''at2'', resp_refreshToken = Some ''rt2'',
                resp_expiresIn = Some 3600, resp_scope = ''mail''\<rparr>"
  let ?ok = "\<lambda>p rt. Inr ?resp :: ErrorKind + token_response"
  let ?down = "\<lambda>p rt. Inl Timeout :: ErrorKind + token_response"
  have look: "tokens ?store (''u1'', ''sv1'', ''gmail'') = Some ?tok" by simp
  have old: "\<not> inFuture 1000 ?tok" and fresh: "inFuture 800 ?tok"
    by (simp_all add: inFuture_def)
  have rt: "refreshToken ?tok = Some ''rt1''" by simp
  have "?ok ''gmail'' ''rt1'' = Inr ?resp" by simp
  with GetValidToken_never_expired [of ?ok 1000 "''u1''" "''sv1''" "''gmail''" ?store] look old rt
  have "GetValidToken ?ok 1000 ''u1'' ''sv1'' ''gmail'' ?store
      = (Inr (issueToken 1000 ''u1'' ''sv1'' ''gmail'' ?resp),
         ?store\<lparr>tokens := (tokens ?store)((''u1'', ''sv1'', ''gmail'')
            \<mapsto> issueToken 1000 ''u1'' ''sv1'' ''gmail'' ?resp)\<rparr>)"
    by blast
  then have r1: "fst (GetValidToken ?ok 1000 ''u1'' ''sv1'' ''gmail'' ?store)
      = Inr (issueToken 1000 ''u1'' ''sv1'' ''gmail'' ?resp)" by simp
  have "?down ''gmail'' ''rt1'' = Inl Timeout" by simp
  with GetValidToken_never_expired [of ?down 1000 "''u1''" "''sv1''" "''gmail''" ?store] look old rt
  have "GetValidToken ?down 1000 ''u1'' ''sv1'' ''gmail'' ?store
      = (Inl ReauthRequired, ?store\<lparr>tokens := (tokens ?store)((''u1'', ''sv1'', ''gmail'') := None)\<rparr>)"
    by blast
  then have r2: "fst (GetValidToken ?down 1000 ''u1'' ''sv1'' ''gmail'' ?store) = Inl ReauthRequired"
    by simp
  from GetValidToken_never_expired [of ?down 800 "''u1''" "''sv1''" "''gmail''" ?store] look fresh
  have "GetValidToken ?down 800 ''u1'' ''sv1'' ''gmail'' ?store = (Inr ?tok, ?store)" by blast
  then have r3: "fst (GetValidToken ?down 800 ''u1'' ''sv1'' ''gmail'' ?store) = Inr ?tok" by simp
  have i: "issueToken 1000 ''u1'' ''sv1'' ''gmail'' ?resp
      = \<lparr>tok_userId = ''u1'', tok_serverId = ''sv1'', tok_provider = ''gmail'',
         accessToken = ''at2'', refreshToken = Some ''rt2'', tok_expiresAt = Some 4600,
         scope = ''mail''\<rparr>"
    by (simp add: issueToken_def)
  from r1 r2 r3 show ?thesis unfolding i by simp
qed

section \<open>Properties of the transport connector and the fallback\<close>

text \<open>
  C4. A primary call whose first attempt fails with a transport-level error is retried
  exactly once: two attempts, and the outcome of the second is what \<open>Call\<close> surfaces. When
  that retry fails too, or when the call times out (which is not retried), the fallback
  executor is invoked, and if the fallback fails the result of the request is
  \<open>FallbackFailed\<close> with the error of the primary call and the error of the fallback. No
  request makes more than two attempts.
\<close>

theorem executeToolCall_retry_once:
  "(\<forall>e. attempt 0 = Inl e \<and> transportLevel e \<and> e \<noteq> Timeout \<longrightarrow>
       Call transportLevel attempt = (attempt 1, 2)
       \<and> primaryAttempts (executeToolCall transportLevel attempt fallback) = 2
       \<and> (\<forall>e'. attempt 1 = Inl e' \<and> (transportLevel e' \<or> e' = Timeout) \<longrightarrow>
             fallbackInvoked (executeToolCall transportLevel attempt fallback)
             \<and> (\<forall>fe. fallback = Inl fe \<longrightarrow>
                   result (executeToolCall transportLevel attempt fallback)
                     = Inl (FallbackFailed e' fe))))
   \<and> (attempt 0 = Inl Timeout \<longrightarrow>
        Call transportLevel attempt = (Inl Timeout, 1)
        \<and> fallbackInvoked (executeToolCall transportLevel attempt fallback)
        \<and> (\<forall>fe. fallback = Inl fe \<longrightarrow>
              result (executeToolCall transportLevel attempt fallback)
                = Inl (FallbackFailed Timeout fe)))
   \<and> (\<forall>e. attempt 0 = Inl e \<and> \<not> transportLevel e \<longrightarrow>
          primaryAttempts (executeToolCall transportLevel attempt fallback) = 1)
   \<and> (\<forall>r. attempt 0 = Inr r \<longrightarrow>
          executeToolCall transportLevel attempt fallback
            = \<lparr>result = Inr r, primaryAttempts = 1, fallbackInvoked = False\<rparr>)
   \<and> primaryAttempts (executeToolCall transportLevel attempt fallback) \<le> 2"
  by (auto simp add: executeToolCall_def Call_def Let_def split: sum.splits)


theorem executeToolCall_retry_once_witness:
  "executeToolCall (\<lambda>e. e = ConnectionRefused \<or> e = InvalidResponse)
      (\<lambda>i. Inl ConnectionRefused) (Inl InvalidResponse :: ErrorKind + string)
     = \<lparr>result = Inl (FallbackFailed ConnectionRefused InvalidResponse),
        primaryAttempts = 2, fallbackInvoked = True\<rparr>
   \<and> executeToolCall (\<lambda>e. e = ConnectionRefused \<or> e = InvalidResponse)
      (\<lambda>i. Inl Timeout) (Inl InvalidResponse :: ErrorKind + string)
     = \<lparr>result = Inl (FallbackFailed Timeout InvalidResponse),
        primaryAttempts = 1, fallbackInvoked = True\<rparr>
   \<and> executeToolCall (\<lambda>e. e = ConnectionRefused \<or> e = InvalidResponse)
      (\<lambda>i. Inr ''sent'') (Inl InvalidResponse)
     = \<lparr>result = Inr ''sent'', primaryAttempts = 1, fallbackInvoked = False\<rparr>"
proof -
  let ?tl = "\<lambda>e. e = ConnectionRefused \<or> e = InvalidResponse"
  let ?down = "\<lambda>i::nat. Inl ConnectionRefused :: ErrorKind + string"
  let ?slow = "\<lambda>i::nat. Inl Timeout :: ErrorKind + string"
  let ?fine = "\<lambda>i::nat. Inr ''sent'' :: ErrorKind + string"
  let ?fb = "Inl InvalidResponse :: ErrorKind + string"
  note A = executeToolCall_retry_once [of ?down ?tl ?fb]
  have a0: "?down 0 = Inl ConnectionRefused \<and> ?tl ConnectionRefused \<and> ConnectionRefused \<noteq> Timeout"
    by simp
  have a1: "?down 1 = Inl ConnectionRefused \<and> (?tl ConnectionRefused \<or> ConnectionRefused = Timeout)"
    by simp
  from A a0 have n: "primaryAttempts (executeToolCall ?tl ?down ?fb) = 2"
    and rest: "\<forall>e'. ?down 1 = Inl e' \<and> (?tl e' \<or> e' = Timeout) \<longrightarrow>
      fallbackInvoked (executeToolCall ?tl ?down ?fb)
      \<and> (\<forall>fe. ?fb = Inl fe \<longrightarrow>
            result (executeToolCall ?tl ?down ?fb) = Inl (FallbackFailed e' fe))"
    by blast+
  from rest a1 have f: "fallbackInvoked (executeToolCall ?tl ?down ?fb)"
    and r: "result (executeToolCall ?tl ?down ?fb) = Inl (FallbackFailed ConnectionRefused InvalidResponse)"
    by blast+
  from n f r have r1: "executeToolCall ?tl ?down ?fb
      = \<lparr>result = Inl (FallbackFailed ConnectionRefused InvalidResponse),
         primaryAttempts = 2, fallbackInvoked = True\<rparr>"
    by (cases "executeToolCall ?tl ?down ?fb") simp
  note B = executeToolCall_retry_once [of ?slow ?tl ?fb]
  have b0: "?slow 0 = Inl Timeout" by simp
  from B b0 have f2: "fallbackInvoked (executeToolCall ?tl ?slow ?fb)"
    and r2: "result (executeToolCall ?tl ?slow ?fb) = Inl (FallbackFailed Timeout InvalidResponse)"
    by blast+
  from B b0 have "\<not> ?tl Timeout \<longrightarrow> primaryAttempts (executeToolCall ?tl ?slow ?fb) = 1" by blast
  then have n2: "primaryAttempts (executeToolCall ?tl ?slow ?fb) = 1" by simp
  from n2 f2 r2 have r2': "executeToolCall ?tl ?slow ?fb
      = \<lparr>result = Inl (FallbackFailed Timeout InvalidResponse),
         primaryAttempts = 1, fallbackInvoked = True\<rparr>"
    by (cases "executeToolCall ?tl ?slow ?fb") simp
  note C = executeToolCall_retry_once [of ?fine ?tl ?fb]
  have "?fine 0 = Inr ''sent''" by simp
  with C have r3: "executeToolCall ?tl ?fine ?fb
      = \<lparr>result = Inr ''sent'', primaryAttempts = 1, fallbackInvoked = False\<rparr>" by blast
  from r1 r2' r3 show ?thesis by simp
qed

end
